theory Spec2Isabelle
  imports Complex_Main
begin

section \<open>The RNN decoder of neural\_sp (decoders/las.py)\<close>

text \<open>
  A shallow embedding of \<^verbatim>\<open>RNNDecoder\<close>: the recurrent state cell
  (\<^verbatim>\<open>recurrency\<close>), greedy decoding, whole-utterance beam search and
  chunk-synchronous beam search.

  Tensors are lists of reals (floating point is idealised as real arithmetic); a batch is
  the list of its rows. The neural layers, the attention module, the language model and
  the CTC prefix scorer are collaborators outside this file of the repository: they enter
  as functions stored in the decoder record or passed as arguments. Every Python exception
  is a value of \<open>error\<close>.
\<close>

datatype error =
  AssertionError | IndexError | KeyError | RuntimeError | UnboundLocalError | TypeError
  | AttributeError | ValueError

type_synonym tensor = "real list"

datatype rnn_kind = LSTM | GRU

record decoder =
  eos :: nat
  n_layers :: nat
  rnn_type :: rnn_kind
  n_projs :: nat
  attn_type :: string
  bwd :: bool
  replace_sos :: bool
  rnn_lstm :: "nat \<Rightarrow> tensor \<Rightarrow> tensor \<times> tensor \<Rightarrow> tensor \<times> tensor"
  rnn_gru :: "nat \<Rightarrow> tensor \<Rightarrow> tensor \<Rightarrow> tensor"
  dropout :: "tensor \<Rightarrow> tensor"
  proj :: "nat \<Rightarrow> tensor \<Rightarrow> tensor"

subsection \<open>Python list indexing\<close>

definition getitem :: "'a list \<Rightarrow> nat \<Rightarrow> error + 'a" where
  "getitem xs i = (if i < length xs then Inr (xs ! i) else Inl IndexError)"

subsection \<open>The recurrent state cell: \<^verbatim>\<open>recurrency\<close>\<close>

text \<open>
  \<^verbatim>\<open>dstate\<close> is the pair \<^verbatim>\<open>(hxs, cxs)\<close>; \<^verbatim>\<open>hxs\<close> holds one tensor per layer,
  \<^verbatim>\<open>cxs\<close> is \<^verbatim>\<open>None\<close> for a GRU (\<^verbatim>\<open>zero_state\<close>).
\<close>

type_synonym dstate = "tensor list \<times> tensor list option"

record new_dstates =
  dout_score :: "tensor option"
  dout_gen :: tensor
  dstate :: dstate

record rec_loop =
  r_dout :: tensor
  r_new_hxs :: "tensor list"
  r_new_cxs :: "tensor list"
  r_dout_score :: "tensor option"

text \<open>One pass of the body of \<^verbatim>\<open>for l in range(self.n_layers)\<close>.\<close>

definition rnn_cell ::
  "decoder \<Rightarrow> tensor list \<Rightarrow> tensor list option \<Rightarrow> nat \<Rightarrow> tensor
     \<Rightarrow> error + (tensor \<times> tensor option)" where
  "rnn_cell d hxs cxs l x =
     (case rnn_type d of
        LSTM \<Rightarrow>
          (case getitem hxs l of
             Inl e \<Rightarrow> Inl e
           | Inr hx \<Rightarrow>
               (case cxs of
                  None \<Rightarrow> Inl TypeError
                | Some cs \<Rightarrow>
                    (case getitem cs l of
                       Inl e \<Rightarrow> Inl e
                     | Inr cx \<Rightarrow>
                         (case rnn_lstm d l x (hx, cx) of (h, c) \<Rightarrow> Inr (h, Some c)))))
      | GRU \<Rightarrow>
          (case getitem hxs l of
             Inl e \<Rightarrow> Inl e
           | Inr hx \<Rightarrow> Inr (rnn_gru d l x hx, None)))"

definition recurrency_layer ::
  "decoder \<Rightarrow> tensor list \<Rightarrow> tensor list option \<Rightarrow> nat \<Rightarrow> rec_loop \<Rightarrow> error + rec_loop" where
  "recurrency_layer d hxs cxs l s =
     (case rnn_cell d hxs cxs l (r_dout s) of
        Inl e \<Rightarrow> Inl e
      | Inr (h, c) \<Rightarrow>
          (let new_cxs = (case c of None \<Rightarrow> r_new_cxs s | Some c' \<Rightarrow> r_new_cxs s @ [c']);
               new_hxs = r_new_hxs s @ [h];
               dout1 = dropout d h;
               dout2 = (if 0 < n_projs d then map tanh (proj d l dout1) else dout1)
           in Inr \<lparr>r_dout = dout2, r_new_hxs = new_hxs, r_new_cxs = new_cxs,
                   r_dout_score = (if l = 0 then Some dout2 else r_dout_score s)\<rparr>))"

fun recurrency_loop ::
  "decoder \<Rightarrow> tensor list \<Rightarrow> tensor list option \<Rightarrow> nat list \<Rightarrow> rec_loop \<Rightarrow> error + rec_loop" where
  "recurrency_loop d hxs cxs [] s = Inr s"
| "recurrency_loop d hxs cxs (l # ls) s =
     (case recurrency_layer d hxs cxs l s of
        Inl e \<Rightarrow> Inl e
      | Inr s' \<Rightarrow> recurrency_loop d hxs cxs ls s')"

text \<open>
  \<^verbatim>\<open>torch.stack\<close> of an empty list raises, so a decoder without layers fails after the
  loop. For a GRU \<^verbatim>\<open>new_cxs\<close> stays the empty Python list.
\<close>

definition recurrency :: "decoder \<Rightarrow> tensor \<Rightarrow> dstate \<Rightarrow> error + new_dstates" where
  "recurrency d inputs ds =
     (case recurrency_loop d (fst ds) (snd ds) [0..<n_layers d]
             \<lparr>r_dout = inputs, r_new_hxs = [], r_new_cxs = [], r_dout_score = None\<rparr> of
        Inl e \<Rightarrow> Inl e
      | Inr s \<Rightarrow>
          if r_new_hxs s = [] then Inl RuntimeError
          else Inr \<lparr>dout_score = r_dout_score s, dout_gen = r_dout s,
                    dstate = (r_new_hxs s, Some (r_new_cxs s))\<rparr>)"

subsection \<open>Python dictionaries and error propagation\<close>

datatype pykey = KStr string | KInt nat

type_synonym 'v pydict = "(pykey \<times> 'v) list"

definition dict_get :: "'v pydict \<Rightarrow> pykey \<Rightarrow> error + 'v" where
  "dict_get dct k = (case map_of dct k of None \<Rightarrow> Inl KeyError | Some v \<Rightarrow> Inr v)"

text \<open>\<^verbatim>\<open>x[k]\<close> where \<^verbatim>\<open>x\<close> is a dictionary or \<^verbatim>\<open>None\<close>.\<close>

definition subscript :: "'v pydict option \<Rightarrow> pykey \<Rightarrow> error + 'v" where
  "subscript x k = (case x of None \<Rightarrow> Inl TypeError | Some dct \<Rightarrow> dict_get dct k)"

definition bind_e :: "error + 'a \<Rightarrow> ('a \<Rightarrow> error + 'b) \<Rightarrow> error + 'b" where
  "bind_e m f = (case m of Inl e \<Rightarrow> Inl e | Inr x \<Rightarrow> f x)"

fun mapM_e :: "('a \<Rightarrow> error + 'b) \<Rightarrow> 'a list \<Rightarrow> error + 'b list" where
  "mapM_e f [] = Inr []"
| "mapM_e f (x # xs) =
     (case f x of
        Inl e \<Rightarrow> Inl e
      | Inr y \<Rightarrow> (case mapM_e f xs of Inl e \<Rightarrow> Inl e | Inr ys \<Rightarrow> Inr (y # ys)))"

definition last_e :: "'a list \<Rightarrow> error + 'a" where
  "last_e xs = (if xs = [] then Inl IndexError else Inr (last xs))"

subsection \<open>Decoding parameters, hypotheses and collaborators\<close>

text \<open>The entries of the \<^verbatim>\<open>params\<close> dictionary read by the decoding functions.\<close>

record params =
  recog_oracle :: bool
  recog_beam_width :: nat
  recog_ctc_weight :: real
  recog_max_len_ratio :: real
  recog_min_len_ratio :: real
  recog_length_penalty :: real
  recog_coverage_penalty :: real
  recog_coverage_threshold :: real
  recog_length_norm :: bool
  recog_lm_weight :: real
  recog_gnmt_decoding :: bool
  recog_eos_threshold :: real
  recog_softmax_smoothing :: real
  recog_asr_state_carry_over :: bool
  recog_lm_state_carry_over :: bool

text \<open>An attention distribution of one hypothesis: one row per encoder frame, one entry
  per head.\<close>

type_synonym attn = "real list list"

text \<open>
  A hypothesis is a Python dictionary; the record has the union of the keys written by the
  two beam searches. The whole-utterance search never reads \<^verbatim>\<open>no_trigger\<close>, the
  chunk-synchronous search never reads \<^verbatim>\<open>score_cp\<close> or the ensemble keys.
  \<^verbatim>\<open>dstates\<close> is itself a dictionary, \<^verbatim>\<open>{'dstate': (hxs, cxs)}\<close>, or \<^verbatim>\<open>None\<close>
  when it was taken from a decoder that has not stored a final state yet.
\<close>

record hypothesis =
  hyp :: "nat list"
  score :: real
  score_attn :: real
  score_cp :: real
  score_ctc :: real
  score_lm :: real
  dstates :: "dstate pydict option"
  cv :: tensor
  aws :: "attn option list"
  lmstate :: "tensor option"
  ctc_state :: "tensor option"
  ensmbl_dstate :: "dstate pydict list"
  ensmbl_cv :: "tensor list"
  ensmbl_aws :: "attn option list list"
  no_trigger :: bool

text \<open>
  The layers around the recurrent cell, for one utterance: the embedding with its dropout,
  the attention module \<^verbatim>\<open>self.score\<close> on the encoder output of the utterance (cache
  flag, query and previous weights to context vector and new weights), \<^verbatim>\<open>generate\<close>,
  and the output layer: its logits, its softmax with a smoothing factor, its log-softmax.
\<close>

record net =
  embed :: "nat \<Rightarrow> tensor"
  attend :: "bool \<Rightarrow> tensor \<Rightarrow> attn option \<Rightarrow> tensor \<times> attn"
  generate :: "tensor \<Rightarrow> tensor \<Rightarrow> tensor option \<Rightarrow> tensor"
  output_logits :: "tensor \<Rightarrow> real list"
  output_probs :: "real \<Rightarrow> tensor \<Rightarrow> real list"
  output_log_probs :: "tensor \<Rightarrow> real list"
  n_heads :: nat
  enc_n_units :: nat
  dec_n_units :: nat

text \<open>A language model on one row: \<^verbatim>\<open>predict\<close> takes the last token and the state to
  the output features, the new state and the log-probabilities of the next token;
  \<^verbatim>\<open>decode\<close> returns the features and the new state. \<open>is_rnnlm\<close> is the test
  \<^verbatim>\<open>isinstance(lm, RNNLM)\<close>.\<close>

record lm_model =
  predict :: "nat \<Rightarrow> tensor option \<Rightarrow> tensor \<times> tensor \<times> real list"
  decode :: "nat \<Rightarrow> tensor option \<Rightarrow> tensor \<times> tensor"
  is_rnnlm :: bool

text \<open>The CTC prefix scorer: prefix, candidate tokens and state to one score and one new
  state per candidate.\<close>

type_synonym ctc_fun = "nat list \<Rightarrow> nat list \<Rightarrow> tensor option \<Rightarrow> real list \<times> tensor list"

record collab =
  self_lm :: "lm_model option"
  lm :: "lm_model option"
  ctc_prefix_score :: "ctc_fun option"
  ctc_streaming :: "tensor list \<Rightarrow> bool \<Rightarrow> ctc_fun"
  ctc_initial_state :: tensor
  ensmbl_decs :: "(decoder \<times> net) list"

subsection \<open>\<^verbatim>\<open>zero_state\<close> and \<^verbatim>\<open>decode_step\<close>\<close>

definition zero_dstate :: "decoder \<Rightarrow> net \<Rightarrow> dstate" where
  "zero_dstate d n =
     (replicate (n_layers d) (replicate (dec_n_units n) 0),
      if rnn_type d = LSTM then Some (replicate (n_layers d) (replicate (dec_n_units n) 0))
      else None)"

definition zero_state :: "decoder \<Rightarrow> net \<Rightarrow> dstate pydict" where
  "zero_state d n = [(KStr ''dstate'', zero_dstate d n)]"

definition decode_step ::
  "decoder \<Rightarrow> net \<Rightarrow> dstate \<Rightarrow> tensor \<Rightarrow> tensor \<Rightarrow> attn option \<Rightarrow> tensor option \<Rightarrow> bool
     \<Rightarrow> error + (new_dstates \<times> tensor \<times> attn \<times> tensor)" where
  "decode_step d n ds cv0 y_emb aw lmout cache =
     bind_e (recurrency d (y_emb @ cv0) ds) (\<lambda>nd.
       case dout_score nd of
         None \<Rightarrow> Inl TypeError
       | Some q \<Rightarrow>
           (case attend n cache q aw of
              (cv1, aw1) \<Rightarrow> Inr (nd, cv1, aw1, generate n cv1 (dout_gen nd) lmout)))"

subsection \<open>\<^verbatim>\<open>torch.topk\<close> and \<^verbatim>\<open>sorted\<close>\<close>

text \<open>
  \<^verbatim>\<open>torch.topk(x, k, largest=True, sorted=True)\<close> returns the \<open>k\<close> largest values in
  descending order with their indices, and raises when \<open>k\<close> exceeds the size. Among equal
  values the lower index is taken first (PyTorch leaves the order of ties open).
\<close>

definition argsort_desc :: "real list \<Rightarrow> nat list" where
  "argsort_desc xs = sort_key (\<lambda>i. - (xs ! i)) [0..<length xs]"

definition topk :: "nat \<Rightarrow> real list \<Rightarrow> error + (real list \<times> nat list)" where
  "topk k xs =
     (if length xs < k then Inl RuntimeError
      else (let ids = take k (argsort_desc xs) in Inr (map ((!) xs) ids, ids)))"

text \<open>\<^verbatim>\<open>sorted(hyps, key=lambda x: x['score'], reverse=True)\<close>: stable, descending.\<close>

definition sorted_by_score :: "hypothesis list \<Rightarrow> hypothesis list" where
  "sorted_by_score hs = sort_key (\<lambda>h. - score h) hs"

text \<open>\<^verbatim>\<open>x.max(0)[0]\<close> of a one-dimensional tensor raises on an empty tensor.\<close>

definition tensor_max :: "real list \<Rightarrow> error + real" where
  "tensor_max xs = (case xs of [] \<Rightarrow> Inl RuntimeError | y # ys \<Rightarrow> Inr (fold max ys y))"

subsection \<open>Whole-utterance beam search: the scores of one step\<close>

text \<open>Lines 954--959: the previous token of a hypothesis.\<close>

definition prev_idx ::
  "decoder \<Rightarrow> params \<Rightarrow> nat list list option \<Rightarrow> nat \<Rightarrow> nat \<Rightarrow> hypothesis \<Rightarrow> error + nat" where
  "prev_idx d p refs_id b t beam =
     (if replace_sos d \<and> t = 0 then
        (case refs_id of
           None \<Rightarrow> Inl TypeError
         | Some rs \<Rightarrow> bind_e (getitem rs 0) (\<lambda>r. getitem r 0))
      else if recog_oracle p then
        (case refs_id of
           None \<Rightarrow> Inl TypeError
         | Some rs \<Rightarrow> bind_e (getitem rs b) (\<lambda>r. getitem (eos d # r) t))
      else last_e (hyp beam))"

text \<open>Lines 967--972: the batched language-model state. The test reads \<^verbatim>\<open>beam\<close>, the
  variable left by the loop above, that is the last hypothesis.\<close>

definition batch_lmstate :: "collab \<Rightarrow> hypothesis list \<Rightarrow> error + tensor option list" where
  "batch_lmstate c hyps =
     (if (lm c \<noteq> None \<or> self_lm c \<noteq> None) \<and> lmstate (last hyps) \<noteq> None then
        (if list_all (\<lambda>h. lmstate h \<noteq> None) hyps then Inr (map lmstate hyps)
         else Inl TypeError)
      else Inr (map (\<lambda>h. None) hyps))"

text \<open>Lines 974--980: \<^verbatim>\<open>self.lm\<close> (fusion) takes precedence over \<^verbatim>\<open>lm\<close> (shallow
  fusion).\<close>

definition lm_predict ::
  "collab \<Rightarrow> nat \<Rightarrow> tensor option \<Rightarrow> tensor option \<times> tensor option \<times> real list option" where
  "lm_predict c y st =
     (case self_lm c of
        Some m \<Rightarrow>
          (case predict m y st of (lmout, st1, sc) \<Rightarrow> (Some lmout, Some st1, Some sc))
      | None \<Rightarrow>
          (case lm c of
             Some m \<Rightarrow>
               (case predict m y st of (lmout, st1, sc) \<Rightarrow> (Some lmout, Some st1, Some sc))
           | None \<Rightarrow> (None, st, None)))"

record row_out =
  o_y :: nat
  o_lmout :: "tensor option"
  o_dstate :: dstate
  o_cv :: tensor
  o_aw :: attn
  o_lmstate :: "tensor option"
  o_scores_lm :: "real list option"
  o_attn_v :: tensor

text \<open>Lines 974--985 for row \<open>j\<close> of the batch (and lines 1273--1284 of the
  chunk-synchronous search, which passes a cache flag).\<close>

definition main_row ::
  "decoder \<Rightarrow> net \<Rightarrow> collab \<Rightarrow> nat \<Rightarrow> bool
     \<Rightarrow> hypothesis \<times> nat \<times> dstate \<times> tensor option \<Rightarrow> error + row_out" where
  "main_row d n c t cache x =
     (case x of (beam, y, ds, lmst) \<Rightarrow>
        (case lm_predict c y lmst of (lmout, lmst1, sc_lm) \<Rightarrow>
           bind_e (decode_step d n ds (cv beam) (embed n y)
                     (if 0 < t then last (aws beam) else None) lmout cache)
             (\<lambda>r. case r of (nd, cv1, aw1, attn_v) \<Rightarrow>
                Inr \<lparr>o_y = y, o_lmout = lmout, o_dstate = dstate nd, o_cv = cv1, o_aw = aw1,
                     o_lmstate = lmst1, o_scores_lm = sc_lm, o_attn_v = attn_v\<rparr>)))"

text \<open>
  Lines 952--985. \<^verbatim>\<open>torch.cat\<close> of an empty list raises, so an empty live set fails
  here. For a GRU line 966 reads \<^verbatim>\<open>cxs\<close>, which only the LSTM branch assigns.
\<close>

definition main_phase ::
  "decoder \<Rightarrow> net \<Rightarrow> collab \<Rightarrow> params \<Rightarrow> nat list list option \<Rightarrow> nat \<Rightarrow> nat
     \<Rightarrow> hypothesis list \<Rightarrow> error + row_out list" where
  "main_phase d n c p refs_id b t hyps =
     bind_e (mapM_e (prev_idx d p refs_id b t) hyps) (\<lambda>ys.
       if hyps = [] then Inl RuntimeError
       else bind_e (mapM_e (\<lambda>beam. subscript (dstates beam) (KStr ''dstate'')) hyps) (\<lambda>dss.
         if rnn_type d = GRU then Inl UnboundLocalError
         else bind_e (batch_lmstate c hyps) (\<lambda>lms.
           mapM_e (main_row d n c t True) (zip hyps (zip ys (zip dss lms))))))"

text \<open>
  Lines 992--997, for ensemble member \<open>i_e\<close>. Line 996 reads
  \<^verbatim>\<open>beam['dstates'][i_e]['dstate'][1]\<close>: the dictionary \<^verbatim>\<open>beam['dstates']\<close> is looked up
  at the integer \<open>i_e\<close>, and the value found (a pair of tensors, if there were one) is
  indexed by a string. Line 994 reads \<^verbatim>\<open>beam['ensmbl_dstate'][i_e]['dstate'][0]\<close>.
\<close>

definition ensemble_states ::
  "decoder \<Rightarrow> nat \<Rightarrow> nat \<Rightarrow> hypothesis list
     \<Rightarrow> error + (tensor \<times> attn option \<times> tensor list \<times> tensor list option) list" where
  "ensemble_states d t i_e hyps =
     bind_e (mapM_e (\<lambda>beam. getitem (ensmbl_cv beam) i_e) hyps) (\<lambda>cv_e.
     bind_e (if 0 < t then mapM_e (\<lambda>beam. bind_e (getitem (ensmbl_aws beam) i_e) last_e) hyps
             else Inr (map (\<lambda>beam. None) hyps)) (\<lambda>aw_e.
     bind_e (mapM_e (\<lambda>beam. bind_e (getitem (ensmbl_dstate beam) i_e)
                       (\<lambda>dd. bind_e (dict_get dd (KStr ''dstate'')) (\<lambda>ds. Inr (fst ds)))) hyps)
       (\<lambda>hxs_e.
     bind_e (case rnn_type d of
               LSTM \<Rightarrow> mapM_e (\<lambda>beam. bind_e (subscript (dstates beam) (KInt i_e))
                                  (\<lambda>v. (Inl TypeError :: error + tensor list option))) hyps
             | GRU \<Rightarrow> Inl UnboundLocalError) (\<lambda>cxs_e.
     Inr (zip cv_e (zip aw_e (zip hxs_e cxs_e)))))))"

text \<open>Lines 999--1007 for ensemble member \<open>i_e\<close>: its probabilities for every row, and the
  state kept for the new hypotheses, read at \<^verbatim>\<open>j\<close> and \<^verbatim>\<open>beam\<close> as the loop of lines
  954--959 left them (the last row).\<close>

definition ensemble_model ::
  "decoder \<Rightarrow> nat \<Rightarrow> hypothesis list \<Rightarrow> row_out list \<Rightarrow> nat \<times> decoder \<times> net
     \<Rightarrow> error + (real list list \<times> dstate pydict \<times> tensor \<times> attn option list)" where
  "ensemble_model d t hyps rows x =
     (case x of (i_e, dec, ne) \<Rightarrow>
        bind_e (ensemble_states d t i_e hyps) (\<lambda>sts.
        bind_e (mapM_e (\<lambda>y. case y of ((cv_e, aw_e, hxs_e, cxs_e), r) \<Rightarrow>
                          decode_step dec ne (hxs_e, cxs_e) cv_e (embed ne (o_y r)) aw_e (o_lmout r)
                            True)
                  (zip sts rows)) (\<lambda>outs.
        bind_e (last_e hyps) (\<lambda>beam.
        bind_e (bind_e (subscript (dstates beam) (KInt i_e))
                  (\<lambda>v. (Inl TypeError :: error + dstate))) (\<lambda>ds_j.
        bind_e (last_e outs) (\<lambda>out. case out of (nd, cv1, aw1, attn_v) \<Rightarrow>
        bind_e (getitem (ensmbl_aws beam) i_e) (\<lambda>aws_e.
          Inr (map (\<lambda>out. case out of (nd, cv1, aw1, attn_v) \<Rightarrow> output_probs ne 1 attn_v) outs,
               [(KStr ''dstate'', ds_j)], cv1, aws_e @ [Some aw1]))))))))"

record phase_out =
  ph_rows :: "row_out list"
  ph_scores_attn :: "real list list"
  ph_ensmbl_dstate :: "dstate pydict list"
  ph_ensmbl_cv :: "tensor list"
  ph_ensmbl_aws :: "attn option list list"

text \<open>
  Lines 986--1011: the probabilities of the main model, to which the probabilities of each
  ensemble member are added, then \<^verbatim>\<open>scores_attn = torch.log(probs) / n_models\<close>.
\<close>

definition add_probs :: "real list list \<Rightarrow> real list list \<Rightarrow> real list list" where
  "add_probs probs_e probs = map2 (map2 (+)) probs probs_e"

definition score_phase ::
  "decoder \<Rightarrow> net \<Rightarrow> collab \<Rightarrow> params \<Rightarrow> nat list list option \<Rightarrow> nat \<Rightarrow> nat
     \<Rightarrow> hypothesis list \<Rightarrow> error + phase_out" where
  "score_phase d n c p refs_id b t hyps =
     (let n_models = length (ensmbl_decs c) + 1 in
      bind_e (main_phase d n c p refs_id b t hyps) (\<lambda>rows.
      bind_e (if 1 < n_models
              then mapM_e (ensemble_model d t hyps rows)
                     (zip [0..<length (ensmbl_decs c)] (ensmbl_decs c))
              else Inr []) (\<lambda>es.
        Inr \<lparr>ph_rows = rows,
             ph_scores_attn =
               map (map (\<lambda>x. ln x / real n_models))
                 (fold add_probs (map fst es)
                    (map (\<lambda>r. output_probs n (recog_softmax_smoothing p) (o_attn_v r)) rows)),
             ph_ensmbl_dstate = map (\<lambda>e. fst (snd e)) es,
             ph_ensmbl_cv = map (\<lambda>e. fst (snd (snd e))) es,
             ph_ensmbl_aws = map (\<lambda>e. snd (snd (snd e))) es\<rparr>)))"

subsection \<open>Whole-utterance beam search: the candidates of one hypothesis\<close>

text \<open>Lines 1028--1034: the length penalty on the scores of the selected candidates.\<close>

definition add_length_penalty :: "params \<Rightarrow> hypothesis \<Rightarrow> real list \<Rightarrow> real list" where
  "add_length_penalty p beam total_scores_topk =
     (let lp_weight = recog_length_penalty p in
      if 0 < lp_weight then
        (if recog_gnmt_decoding p then
           (let lp = (6 + real (length (tl (hyp beam)))) powr lp_weight / 6 powr lp_weight
            in map (\<lambda>s. s / lp) total_scores_topk)
         else map (\<lambda>s. s + (real (length (tl (hyp beam))) + 1) * lp_weight) total_scores_topk)
      else total_scores_topk)"

text \<open>
  Lines 1037--1054: the coverage penalty. \<^verbatim>\<open>torch.stack\<close> puts the earlier weights of
  the hypothesis (one row each) next to \<^verbatim>\<open>aw\<close>, the weights of the whole batch, and
  raises unless the batch has one row; \<^verbatim>\<open>aw_mat[:, :, :, 0]\<close> then keeps the first
  stacked entry.
\<close>

definition coverage_penalty ::
  "params \<Rightarrow> net \<Rightarrow> hypothesis \<Rightarrow> attn list \<Rightarrow> error + real" where
  "coverage_penalty p n beam aw =
     (if 0 < recog_coverage_penalty p then
        (if length aw \<noteq> 1 \<and> tl (aws beam) \<noteq> [] then Inl RuntimeError
         else bind_e (case tl (aws beam) of
                        [] \<Rightarrow> getitem aw 0
                      | a # as \<Rightarrow> (case a of None \<Rightarrow> Inl TypeError | Some m \<Rightarrow> Inr m))
           (\<lambda>aw_mat.
              if recog_gnmt_decoding p then
                Inr (sum_list (filter (\<lambda>x. x < 0) (map (\<lambda>fr. ln (sum_list fr)) aw_mat)))
              else if recog_coverage_threshold p = 0 then
                Inr (sum_list (concat aw_mat) / real (n_heads n))
              else
                Inr (sum_list (filter (\<lambda>x. recog_coverage_threshold p < x) (concat aw_mat))
                       / real (n_heads n))))
      else Inr 0)"

record cand =
  topk_ids :: "nat list"
  total_scores_topk :: "real list"
  total_scores_attn :: "real list"
  total_scores_lm :: "real list"
  total_scores_ctc :: "real list"
  cp :: real
  ctc_states :: "tensor list"
  joint_ids_topk :: "nat list option"

text \<open>Lines 1022--1026: the language-model scores of the selected candidates.\<close>

definition lm_scores ::
  "collab \<Rightarrow> params \<Rightarrow> hypothesis \<Rightarrow> row_out \<Rightarrow> nat list \<Rightarrow> error + real list" where
  "lm_scores c p beam r ids =
     (if lm c \<noteq> None then
        (case o_scores_lm r of
           None \<Rightarrow> Inl TypeError
         | Some sc \<Rightarrow> mapM_e (\<lambda>i. bind_e (getitem sc i) (\<lambda>v. Inr (score_lm beam + v))) ids)
      else Inr (replicate (recog_beam_width p) 0))"

text \<open>
  Lines 1016--1069 for hypothesis \<open>beam\<close> with the row \<open>scores_attn\<close> of this step: the
  first \<^verbatim>\<open>topk\<close> on the attention scores, then the language-model score, the length
  penalty, the coverage penalty and the CTC score on the selected candidates, and after
  the CTC score the second \<^verbatim>\<open>topk\<close> over the selected candidates.
\<close>

definition candidates ::
  "net \<Rightarrow> collab \<Rightarrow> params \<Rightarrow> hypothesis \<Rightarrow> row_out \<Rightarrow> real list \<Rightarrow> attn list \<Rightarrow> error + cand" where
  "candidates n c p beam r scores_attn aw =
     (let beam_width = recog_beam_width p;
          tsa = map (\<lambda>s. score_attn beam + s) scores_attn;
          total_scores = map (\<lambda>s. s * (1 - recog_ctc_weight p)) tsa
      in
      bind_e (topk beam_width total_scores) (\<lambda>tk. case tk of (vals0, ids0) \<Rightarrow>
      bind_e (lm_scores c p beam r ids0) (\<lambda>tsl.
        let vals1 = (if lm c \<noteq> None
                     then map2 (\<lambda>v s. v + s * recog_lm_weight p) vals0 tsl else vals0);
            vals2 = add_length_penalty p beam vals1
        in
        bind_e (coverage_penalty p n beam aw) (\<lambda>cp0.
          let vals3 = (if 0 < recog_coverage_penalty p
                       then map (\<lambda>v. v + cp0 * recog_coverage_penalty p) vals2 else vals2)
          in
          (case ctc_prefix_score c of
             None \<Rightarrow>
               Inr \<lparr>topk_ids = ids0, total_scores_topk = vals3, total_scores_attn = tsa,
                    total_scores_lm = tsl, total_scores_ctc = replicate beam_width 0,
                    cp = cp0, ctc_states = [], joint_ids_topk = None\<rparr>
           | Some f \<Rightarrow>
               (case f (hyp beam) ids0 (ctc_state beam) of (ctc_scores, states) \<Rightarrow>
                  if length ctc_scores \<noteq> beam_width then Inl RuntimeError
                  else
                    bind_e (topk beam_width
                              (map2 (\<lambda>v s. v + s * recog_ctc_weight p) vals3 ctc_scores))
                      (\<lambda>tk2. case tk2 of (vals4, joint) \<Rightarrow>
                         Inr \<lparr>topk_ids = map ((!) ids0) joint, total_scores_topk = vals4,
                              total_scores_attn = tsa, total_scores_lm = tsl,
                              total_scores_ctc = ctc_scores, cp = cp0, ctc_states = states,
                              joint_ids_topk = Some joint\<rparr>)))))))"

subsection \<open>Whole-utterance beam search: extending, pruning, completing\<close>

text \<open>
  Lines 1078--1086, for a candidate that is the end symbol: \<open>True\<close> stands for
  \<^verbatim>\<open>continue\<close>. The two \<^verbatim>\<open>max\<close> over the entries before and after the end symbol raise
  when the slice is empty.
\<close>

definition eos_rejected ::
  "decoder \<Rightarrow> params \<Rightarrow> nat \<Rightarrow> hypothesis \<Rightarrow> real list \<Rightarrow> error + bool" where
  "eos_rejected d p elen beam scores_attn =
     (if real_of_int (int (length (hyp beam)) - 1) < real elen * recog_min_len_ratio p
      then Inr True
      else
        bind_e (tensor_max (take (eos d) scores_attn)) (\<lambda>m1.
        bind_e (tensor_max (drop (eos d + 1) scores_attn)) (\<lambda>m2.
        bind_e (getitem scores_attn (eos d)) (\<lambda>s.
          Inr (s \<le> recog_eos_threshold p * max m1 m2)))))"

text \<open>Lines 1071--1102 for one \<open>k\<close>: \<open>None\<close> stands for \<^verbatim>\<open>continue\<close>.\<close>

definition extend_hyp ::
  "decoder \<Rightarrow> params \<Rightarrow> nat \<Rightarrow> phase_out \<Rightarrow> hypothesis \<Rightarrow> row_out \<Rightarrow> real list \<Rightarrow> cand
     \<Rightarrow> nat \<Rightarrow> error + hypothesis option" where
  "extend_hyp d p elen ph beam r scores_attn cd k =
     bind_e (getitem (topk_ids cd) k) (\<lambda>idx.
     bind_e (getitem (total_scores_topk cd) k) (\<lambda>sc.
       let length_norm_factor =
             (if recog_length_norm p then real (length (tl (hyp beam))) + 1 else 1);
           total_score = sc / length_norm_factor
       in
       bind_e (if idx = eos d then eos_rejected d p elen beam scores_attn else Inr False)
         (\<lambda>rejected.
            if rejected then Inr None
            else
              bind_e (getitem (total_scores_attn cd) idx) (\<lambda>sa.
              bind_e (getitem (total_scores_ctc cd) k) (\<lambda>sctc.
              bind_e (getitem (total_scores_lm cd) k) (\<lambda>slm.
              bind_e (case joint_ids_topk cd of
                        None \<Rightarrow> Inr None
                      | Some joint \<Rightarrow>
                          bind_e (getitem joint k) (\<lambda>jk.
                          bind_e (getitem (ctc_states cd) jk) (\<lambda>st. Inr (Some st))))
                (\<lambda>cst.
                   Inr (Some \<lparr>hyp = hyp beam @ [idx], score = total_score, score_attn = sa,
                              score_cp = cp cd, score_ctc = sctc, score_lm = slm,
                              dstates = Some [(KStr ''dstate'', o_dstate r)], cv = o_cv r,
                              aws = aws beam @ [Some (o_aw r)], lmstate = o_lmstate r,
                              ctc_state = cst,
                              ensmbl_dstate = ph_ensmbl_dstate ph,
                              ensmbl_cv = ph_ensmbl_cv ph,
                              ensmbl_aws = ph_ensmbl_aws ph,
                              no_trigger = False\<rparr>))))))))"

text \<open>Lines 1014--1102 for hypothesis \<open>j\<close>: its new hypotheses, in the order of \<open>k\<close>.\<close>

definition expand_beam ::
  "decoder \<Rightarrow> net \<Rightarrow> collab \<Rightarrow> params \<Rightarrow> nat \<Rightarrow> phase_out
     \<Rightarrow> hypothesis \<times> row_out \<times> real list \<Rightarrow> error + hypothesis list" where
  "expand_beam d n c p elen ph x =
     (case x of (beam, r, scores_attn) \<Rightarrow>
        bind_e (candidates n c p beam r scores_attn (map o_aw (ph_rows ph))) (\<lambda>cd.
        bind_e (mapM_e (extend_hyp d p elen ph beam r scores_attn cd) [0..<recog_beam_width p])
          (\<lambda>os. Inr (concat (map (\<lambda>opt. case opt of None \<Rightarrow> [] | Some h \<Rightarrow> [h]) os)))))"

definition expand_all ::
  "decoder \<Rightarrow> net \<Rightarrow> collab \<Rightarrow> params \<Rightarrow> nat \<Rightarrow> phase_out \<Rightarrow> hypothesis list
     \<Rightarrow> error + hypothesis list" where
  "expand_all d n c p elen ph hyps =
     bind_e (mapM_e (expand_beam d n c p elen ph)
               (zip hyps (zip (ph_rows ph) (ph_scores_attn ph))))
       (\<lambda>hss. Inr (concat hss))"

text \<open>Lines 1110--1119: whether a pruned hypothesis goes to \<^verbatim>\<open>end_hyps\<close>.\<close>

definition is_complete :: "decoder \<Rightarrow> params \<Rightarrow> nat list \<Rightarrow> nat \<Rightarrow> hypothesis \<Rightarrow> bool" where
  "is_complete d p refs_b t h =
     (if recog_oracle p then t = length refs_b
      else 1 < length (hyp h) \<and> last (hyp h) = eos d)"

text \<open>
  Lines 952--1123, one pass of \<^verbatim>\<open>for t in range(ytime)\<close> on the pair
  \<^verbatim>\<open>(hyps, end_hyps)\<close>. The flag is \<^verbatim>\<open>break\<close>: then \<^verbatim>\<open>hyps\<close> keeps its value.
\<close>

definition beam_step ::
  "decoder \<Rightarrow> net \<Rightarrow> collab \<Rightarrow> params \<Rightarrow> nat list list option \<Rightarrow> nat \<Rightarrow> nat \<Rightarrow> nat
     \<Rightarrow> hypothesis list \<times> hypothesis list
     \<Rightarrow> error + ((hypothesis list \<times> hypothesis list) \<times> bool)" where
  "beam_step d n c p refs_id b elen t s =
     (case s of (hyps, end_hyps) \<Rightarrow>
        bind_e (score_phase d n c p refs_id b t hyps) (\<lambda>ph.
        bind_e (expand_all d n c p elen ph hyps) (\<lambda>new_hyps.
        bind_e (if recog_oracle p then
                  (case refs_id of
                     None \<Rightarrow> Inl TypeError
                   | Some rs \<Rightarrow> getitem rs b)
                else Inr []) (\<lambda>refs_b.
          let new_hyps_sorted = take (recog_beam_width p) (sorted_by_score new_hyps);
              end1 = end_hyps @ filter (is_complete d p refs_b t) new_hyps_sorted;
              live = filter (\<lambda>h. \<not> is_complete d p refs_b t h) new_hyps_sorted
          in
          if recog_beam_width p \<le> length end1
          then Inr ((hyps, take (recog_beam_width p) end1), True)
          else Inr ((live, end1), False)))))"

fun beam_loop ::
  "decoder \<Rightarrow> net \<Rightarrow> collab \<Rightarrow> params \<Rightarrow> nat list list option \<Rightarrow> nat \<Rightarrow> nat \<Rightarrow> nat list
     \<Rightarrow> hypothesis list \<times> hypothesis list
     \<Rightarrow> error + (hypothesis list \<times> hypothesis list)" where
  "beam_loop d n c p refs_id b elen [] s = Inr s"
| "beam_loop d n c p refs_id b elen (t # ts) s =
     (case beam_step d n c p refs_id b elen t s of
        Inl e \<Rightarrow> Inl e
      | Inr (s1, brk) \<Rightarrow> if brk then Inr s1 else beam_loop d n c p refs_id b elen ts s1)"

subsection \<open>Whole-utterance beam search: one utterance\<close>

text \<open>Lines 933--945: the initial hypothesis.\<close>

definition init_hyp ::
  "decoder \<Rightarrow> net \<Rightarrow> collab \<Rightarrow> dstate pydict option \<Rightarrow> tensor option \<Rightarrow> hypothesis" where
  "init_hyp d n c dstates0 lmstate0 =
     \<lparr>hyp = [eos d], score = 0, score_attn = 0, score_cp = 0, score_ctc = 0, score_lm = 0,
      dstates = dstates0, cv = replicate (enc_n_units n) 0, aws = [None],
      lmstate = lmstate0,
      ctc_state = (if ctc_prefix_score c \<noteq> None then Some (ctc_initial_state c) else None),
      ensmbl_dstate = map (\<lambda>e. zero_state (fst e) (snd e)) (ensmbl_decs c),
      ensmbl_cv = map (\<lambda>e. replicate (enc_n_units (snd e)) 0) (ensmbl_decs c),
      ensmbl_aws = replicate (length (ensmbl_decs c)) [None],
      no_trigger = False\<rparr>"

text \<open>Lines 946--950: the number of steps.\<close>

definition ytime ::
  "params \<Rightarrow> nat list list option \<Rightarrow> nat \<Rightarrow> nat \<Rightarrow> error + int" where
  "ytime p refs_id b elen =
     (if recog_oracle p then
        (case refs_id of
           None \<Rightarrow> Inl AssertionError
         | Some rs \<Rightarrow> bind_e (getitem rs b) (\<lambda>r. Inr (int (length r) + 1)))
      else Inr (\<lfloor>real elen * recog_max_len_ratio p\<rfloor> + 1))"

text \<open>Lines 1126--1129: global pruning.\<close>

definition global_pruning :: "nat \<Rightarrow> hypothesis list \<Rightarrow> hypothesis list \<Rightarrow> hypothesis list" where
  "global_pruning nbest hyps end_hyps =
     (if length end_hyps = 0 then hyps
      else if length end_hyps < nbest \<and> 1 < nbest
           then end_hyps @ take (nbest - length end_hyps) hyps
      else end_hyps)"

record utt_result =
  nbest_hyps_idx :: "nat list list"
  aws_best :: "attn list"
  scores_nbest :: "real list"
  eos_flags :: "bool list"
  final_hyp :: hypothesis

text \<open>
  Lines 1140 and 1165--1175, without second-pass rescoring: the sort, then
  \<^verbatim>\<open>end_hyps[n]\<close> for each \<open>n\<close> below \<^verbatim>\<open>nbest\<close>, and the attention weights of the best
  hypothesis (\<^verbatim>\<open>torch.stack\<close> raises on an empty list).
\<close>

definition nbest_list :: "decoder \<Rightarrow> nat \<Rightarrow> hypothesis list \<Rightarrow> error + utt_result" where
  "nbest_list d nbest end_hyps0 =
     (let end_hyps = sorted_by_score end_hyps0 in
      bind_e (mapM_e (getitem end_hyps) [0..<nbest]) (\<lambda>top.
      bind_e (getitem end_hyps 0) (\<lambda>best.
      bind_e (mapM_e (\<lambda>a. case a of None \<Rightarrow> Inl TypeError | Some m \<Rightarrow> Inr m) (tl (aws best)))
        (\<lambda>ws.
           if ws = [] then Inl RuntimeError
           else
             bind_e (mapM_e (\<lambda>h. bind_e (last_e (hyp h)) (\<lambda>y. Inr (y = eos d))) top) (\<lambda>flags.
               Inr \<lparr>nbest_hyps_idx =
                      map (\<lambda>h. if bwd d then rev (tl (hyp h)) else tl (hyp h)) top,
                    aws_best = (if bwd d then rev ws else ws),
                    scores_nbest = map score_attn top,
                    eos_flags = flags,
                    final_hyp = best\<rparr>)))))"

text \<open>
  Lines 901--1175 for utterance \<open>b\<close>, given the decoder state and the language-model state
  it starts from (lines 903--904 and 924--930).
\<close>

definition beam_search_utt ::
  "decoder \<Rightarrow> net \<Rightarrow> collab \<Rightarrow> params \<Rightarrow> nat \<Rightarrow> nat list list option \<Rightarrow> nat \<Rightarrow> nat
     \<Rightarrow> dstate pydict option \<Rightarrow> tensor option \<Rightarrow> error + utt_result" where
  "beam_search_utt d n c p nbest refs_id b elen dstates0 lmstate0 =
     (if ctc_prefix_score c \<noteq> None \<and> \<not> 0 < recog_ctc_weight p then Inl AssertionError
      else
        bind_e (ytime p refs_id b elen) (\<lambda>yt.
        bind_e (beam_loop d n c p refs_id b elen [0..<nat yt]
                  ([init_hyp d n c dstates0 lmstate0], [])) (\<lambda>s.
          nbest_list d nbest (global_pruning nbest (fst s) (snd s)))))"

subsection \<open>Whole-utterance beam search: the batch\<close>

text \<open>
  The attributes of the decoder object that the searches read and write between calls.
  \<open>score_cache\<close> is the cache of the attention module, cleared by
  \<^verbatim>\<open>self.score.reset()\<close>; \<open>ctc_chunks\<close> are the chunks given to the streaming CTC scorer
  (\<open>None\<close> before the scorer exists); \<open>n_frames\<close> is \<open>None\<close> before it is first set.
\<close>

record dec_state =
  prev_spk :: string
  dstates_final :: "dstate pydict option"
  lmstate_final :: "tensor option"
  score_cache :: "tensor option"
  ctc_chunks :: "tensor list option"
  n_frames :: "nat option"

text \<open>Lines 902--904 and 924--930: the states an utterance starts from.\<close>

definition initial_states ::
  "decoder \<Rightarrow> net \<Rightarrow> collab \<Rightarrow> params \<Rightarrow> string list option \<Rightarrow> dec_state \<Rightarrow> nat
     \<Rightarrow> error + (dstate pydict option \<times> tensor option \<times> dec_state)" where
  "initial_states d n c p speakers st b =
     (let st0 = st\<lparr>score_cache := None\<rparr> in
      case speakers of
        None \<Rightarrow> Inr (Some (zero_state d n), None, st0)
      | Some spks \<Rightarrow>
          bind_e (getitem spks b) (\<lambda>spk.
            Inr (if spk = prev_spk st0 \<and> recog_asr_state_carry_over p
                 then dstates_final st0 else Some (zero_state d n),
                 if spk = prev_spk st0 \<and> recog_lm_state_carry_over p
                    \<and> (case lm c of None \<Rightarrow> False | Some m \<Rightarrow> is_rnnlm m)
                 then lmstate_final st0 else None,
                 st0\<lparr>prev_spk := spk\<rparr>)))"

text \<open>The loop \<^verbatim>\<open>for b in range(bs)\<close>; an utterance is its encoder length with the
  layers and collaborators on its encoder output.\<close>

fun utt_loop ::
  "decoder \<Rightarrow> params \<Rightarrow> nat \<Rightarrow> nat list list option \<Rightarrow> string list option \<Rightarrow> dec_state \<Rightarrow> nat
     \<Rightarrow> (nat \<times> net \<times> collab) list \<Rightarrow> (error + utt_result list) \<times> dec_state" where
  "utt_loop d p nbest refs_id speakers st b [] = (Inr [], st)"
| "utt_loop d p nbest refs_id speakers st b (u # us) =
     (case u of (elen, n, c) \<Rightarrow>
        (case initial_states d n c p speakers st b of
           Inl e \<Rightarrow> (Inl e, st\<lparr>score_cache := None\<rparr>)
         | Inr (ds0, lm0, st1) \<Rightarrow>
             (case beam_search_utt d n c p nbest refs_id b elen ds0 lm0 of
                Inl e \<Rightarrow> (Inl e, st1)
              | Inr r \<Rightarrow>
                  (case utt_loop d p nbest refs_id speakers st1 (Suc b) us of
                     (Inl e, st2) \<Rightarrow> (Inl e, st2)
                   | (Inr rs, st2) \<Rightarrow> (Inr (r # rs), st2)))))"

text \<open>Lines 1177--1184: the end symbol is dropped from a hypothesis that ends with it.\<close>

definition exclude_eos_utt :: "decoder \<Rightarrow> utt_result \<Rightarrow> nat list list" where
  "exclude_eos_utt d r =
     map (\<lambda>x. case x of (h, flag) \<Rightarrow>
            if flag then (if bwd d then tl h else butlast h) else h)
       (zip (nbest_hyps_idx r) (eos_flags r))"

text \<open>
  \<^verbatim>\<open>beam_search\<close> without second-pass rescoring: the assertions of lines 871 and
  888--890, the utterances, and lines 1177--1190. After an empty batch line 1187 reads
  \<^verbatim>\<open>end_hyps\<close>, which no utterance has assigned.
\<close>

definition beam_search ::
  "decoder \<Rightarrow> dec_state \<Rightarrow> params \<Rightarrow> nat \<Rightarrow> bool \<Rightarrow> nat list list option \<Rightarrow> string list option
     \<Rightarrow> (nat \<times> net \<times> collab) list
     \<Rightarrow> (error + (nat list list list \<times> attn list list \<times> real list list)) \<times> dec_state" where
  "beam_search d st p nbest exclude_eos refs_id speakers utts =
     (if \<not> (1 \<le> nbest \<and> nbest \<le> recog_beam_width p) then (Inl AssertionError, st)
      else if list_ex (\<lambda>u. lm (snd (snd u)) \<noteq> None) utts \<and> \<not> 0 < recog_lm_weight p
      then (Inl AssertionError, st)
      else
        (case utt_loop d p nbest refs_id speakers st 0 utts of
           (Inl e, st1) \<Rightarrow> (Inl e, st1)
         | (Inr rs, st1) \<Rightarrow>
             if rs = [] then (Inl UnboundLocalError, st1)
             else
               (Inr (map (\<lambda>r. if exclude_eos then exclude_eos_utt d r else nbest_hyps_idx r) rs,
                     map aws_best rs, map scores_nbest rs),
                st1\<lparr>dstates_final := dstates (final_hyp (last rs)),
                     lmstate_final := lmstate (final_hyp (last rs))\<rparr>)))"
subsection \<open>Chunk-synchronous beam search\<close>

text \<open>Lines 1255--1285: the decoder step on all live hypotheses and the log-softmax of the
  output. The attention cache is used when the number of hypotheses has not changed.\<close>

definition chunk_phase ::
  "decoder \<Rightarrow> net \<Rightarrow> collab \<Rightarrow> nat \<Rightarrow> nat \<Rightarrow> hypothesis list \<Rightarrow> error + row_out list" where
  "chunk_phase d n c t n_hyps_prev hyps =
     bind_e (mapM_e (\<lambda>beam. last_e (hyp beam)) hyps) (\<lambda>ys.
       if hyps = [] then Inl RuntimeError
       else bind_e (mapM_e (\<lambda>beam. subscript (dstates beam) (KStr ''dstate'')) hyps) (\<lambda>dss.
         if rnn_type d = GRU then Inl UnboundLocalError
         else bind_e (batch_lmstate c hyps) (\<lambda>lms.
           mapM_e (main_row d n c t (length hyps = n_hyps_prev))
             (zip hyps (zip ys (zip dss lms))))))"

text \<open>
  Lines 1298--1326 for hypothesis \<open>beam\<close>: as in the whole-utterance search, with the
  additive length penalty always applied, no coverage penalty, and the streaming CTC
  scorer of the decoder object.
\<close>

definition candidates_chunk ::
  "collab \<Rightarrow> params \<Rightarrow> tensor option \<Rightarrow> tensor list option \<Rightarrow> nat
     \<Rightarrow> hypothesis \<Rightarrow> row_out \<Rightarrow> real list \<Rightarrow> error + cand" where
  "candidates_chunk c p ctc_log_probs chunks t beam r scores_attn =
     (let beam_width = recog_beam_width p;
          tsa = map (\<lambda>s. score_attn beam + s) scores_attn;
          total_scores = map (\<lambda>s. s * (1 - recog_ctc_weight p)) tsa
      in
      bind_e (topk beam_width total_scores) (\<lambda>tk. case tk of (vals0, ids0) \<Rightarrow>
      bind_e (lm_scores c p beam r ids0) (\<lambda>tsl.
        let vals1 = (if lm c \<noteq> None
                     then map2 (\<lambda>v s. v + s * recog_lm_weight p) vals0 tsl else vals0);
            vals2 = map (\<lambda>s. s + (real (length (tl (hyp beam))) + 1) * recog_length_penalty p)
                      vals1
        in
        (case ctc_log_probs of
           None \<Rightarrow>
             Inr \<lparr>topk_ids = ids0, total_scores_topk = vals2, total_scores_attn = tsa,
                  total_scores_lm = tsl, total_scores_ctc = replicate beam_width 0,
                  cp = 0, ctc_states = [], joint_ids_topk = None\<rparr>
         | Some lp \<Rightarrow>
             (case chunks of
                None \<Rightarrow> Inl AttributeError
              | Some chs \<Rightarrow>
                  (case ctc_streaming c chs (t = 0) (hyp beam) ids0 (ctc_state beam) of
                     (ctc_scores, states) \<Rightarrow>
                       if length ctc_scores \<noteq> beam_width then Inl RuntimeError
                       else
                         bind_e (topk beam_width
                                   (map2 (\<lambda>v s. v + s * recog_ctc_weight p) vals2 ctc_scores))
                           (\<lambda>tk2. case tk2 of (vals4, joint) \<Rightarrow>
                              Inr \<lparr>topk_ids = map ((!) ids0) joint, total_scores_topk = vals4,
                                   total_scores_attn = tsa, total_scores_lm = tsl,
                                   total_scores_ctc = ctc_scores, cp = 0,
                                   ctc_states = states, joint_ids_topk = Some joint\<rparr>)))))))"

text \<open>Lines 1334--1339: the end-symbol test of the chunk-synchronous search.\<close>

definition eos_rejected_chunk :: "decoder \<Rightarrow> params \<Rightarrow> real list \<Rightarrow> error + bool" where
  "eos_rejected_chunk d p scores_attn =
     bind_e (tensor_max (take (eos d) scores_attn)) (\<lambda>m1.
     bind_e (tensor_max (drop (eos d + 1) scores_attn)) (\<lambda>m2.
     bind_e (getitem scores_attn (eos d)) (\<lambda>s.
       Inr (s \<le> recog_eos_threshold p * max m1 m2))))"

text \<open>Lines 1330--1352 for one \<open>k\<close>.\<close>

definition extend_chunk ::
  "decoder \<Rightarrow> params \<Rightarrow> hypothesis \<Rightarrow> row_out \<Rightarrow> real list \<Rightarrow> cand \<Rightarrow> nat
     \<Rightarrow> error + hypothesis option" where
  "extend_chunk d p beam r scores_attn cd k =
     bind_e (getitem (topk_ids cd) k) (\<lambda>idx.
     bind_e (getitem (total_scores_topk cd) k) (\<lambda>sc.
       let total_score = sc / (real (length (tl (hyp beam))) + 1) in
       bind_e (if idx = eos d then eos_rejected_chunk d p scores_attn else Inr False)
         (\<lambda>rejected.
            if rejected then Inr None
            else
              bind_e (getitem (total_scores_attn cd) idx) (\<lambda>sa.
              bind_e (getitem (total_scores_ctc cd) k) (\<lambda>sctc.
              bind_e (getitem (total_scores_lm cd) k) (\<lambda>slm.
              bind_e (case joint_ids_topk cd of
                        None \<Rightarrow> Inr None
                      | Some joint \<Rightarrow>
                          bind_e (getitem joint k) (\<lambda>jk.
                          bind_e (getitem (ctc_states cd) jk) (\<lambda>st. Inr (Some st))))
                (\<lambda>cst.
                   Inr (Some \<lparr>hyp = hyp beam @ [idx], score = total_score, score_attn = sa,
                              score_cp = 0, score_ctc = sctc, score_lm = slm,
                              dstates = Some [(KStr ''dstate'', o_dstate r)], cv = o_cv r,
                              aws = aws beam @ [Some (o_aw r)], lmstate = o_lmstate r,
                              ctc_state = cst,
                              ensmbl_dstate = [], ensmbl_cv = [], ensmbl_aws = [],
                              no_trigger = False\<rparr>))))))))"

text \<open>
  Lines 1291--1295: when the attention weights of row \<open>j\<close> sum to zero, the last entry of
  \<^verbatim>\<open>beam['aws']\<close> is overwritten with zeros (one row per frame of the chunk) and a copy
  of the dictionary is appended to \<^verbatim>\<open>new_hyps\<close>. No other key is written.
\<close>

definition no_trigger_point :: "row_out \<Rightarrow> bool" where
  "no_trigger_point r = (sum_list (concat (o_aw r)) = 0)"

definition overwrite_aw :: "nat \<Rightarrow> hypothesis \<Rightarrow> hypothesis" where
  "overwrite_aw xtime beam = beam\<lparr>aws := butlast (aws beam) @ [Some (replicate xtime [0])]\<rparr>"

text \<open>Lines 1289--1352 for hypothesis \<open>j\<close>.\<close>

definition expand_chunk ::
  "decoder \<Rightarrow> net \<Rightarrow> collab \<Rightarrow> params \<Rightarrow> tensor option \<Rightarrow> tensor list option \<Rightarrow> nat \<Rightarrow> nat
     \<Rightarrow> hypothesis \<times> row_out \<Rightarrow> error + hypothesis list" where
  "expand_chunk d n c p ctc_log_probs chunks xtime t x =
     (case x of (beam, r) \<Rightarrow>
        if no_trigger_point r then
          (if aws beam = [] then Inl IndexError else Inr [overwrite_aw xtime beam])
        else
          (let scores_attn = output_log_probs n (o_attn_v r) in
           bind_e (candidates_chunk c p ctc_log_probs chunks t beam r scores_attn) (\<lambda>cd.
           bind_e (mapM_e (extend_chunk d p beam r scores_attn cd) [0..<recog_beam_width p])
             (\<lambda>os. Inr (concat (map (\<lambda>opt. case opt of None \<Rightarrow> [] | Some h \<Rightarrow> [h]) os))))))"

text \<open>Line 1252: the test that ends the loop of a chunk.\<close>

definition all_no_trigger :: "hypothesis list \<Rightarrow> bool" where
  "all_no_trigger hyps_segment =
     (length (filter no_trigger hyps_segment) = length hyps_segment)"

definition is_complete_chunk :: "decoder \<Rightarrow> hypothesis \<Rightarrow> bool" where
  "is_complete_chunk d h = (1 < length (hyp h) \<and> last (hyp h) = eos d)"

text \<open>
  Lines 1250--1367, one pass of \<^verbatim>\<open>for t in range(ytime)\<close> on
  \<^verbatim>\<open>(hyps_segment, end_hyps, n_hyps_prev)\<close>; the flag is \<^verbatim>\<open>break\<close>. When the loop is
  left at line 1366, \<^verbatim>\<open>hyps_segment\<close> is still the list of this pass, whose
  dictionaries line 1292 has written to.
\<close>

definition chunk_step ::
  "decoder \<Rightarrow> net \<Rightarrow> collab \<Rightarrow> params \<Rightarrow> tensor option \<Rightarrow> tensor list option \<Rightarrow> nat \<Rightarrow> nat
     \<Rightarrow> hypothesis list \<times> hypothesis list \<times> nat
     \<Rightarrow> error + ((hypothesis list \<times> hypothesis list \<times> nat) \<times> bool)" where
  "chunk_step d n c p ctc_log_probs chunks xtime t s =
     (case s of (hyps_segment, end_hyps, n_hyps_prev) \<Rightarrow>
        if 0 < t \<and> all_no_trigger hyps_segment then Inr (s, True)
        else
          bind_e (chunk_phase d n c t n_hyps_prev hyps_segment) (\<lambda>rows.
          bind_e (mapM_e (expand_chunk d n c p ctc_log_probs chunks xtime t)
                    (zip hyps_segment rows)) (\<lambda>hss.
            let new_hyps_sorted = take (recog_beam_width p) (sorted_by_score (concat hss));
                end1 = end_hyps @ filter (is_complete_chunk d) new_hyps_sorted;
                live = filter (\<lambda>h. \<not> is_complete_chunk d h) new_hyps_sorted;
                n_forced_eos = 0
            in
            if recog_beam_width p + n_forced_eos \<le> length end1
            then Inr ((map (\<lambda>x. case x of (beam, r) \<Rightarrow>
                              if no_trigger_point r then overwrite_aw xtime beam else beam)
                         (zip hyps_segment rows),
                       take (recog_beam_width p + n_forced_eos) end1,
                       length hyps_segment), True)
            else Inr ((live, end1, length hyps_segment), False))))"

fun chunk_loop ::
  "decoder \<Rightarrow> net \<Rightarrow> collab \<Rightarrow> params \<Rightarrow> tensor option \<Rightarrow> tensor list option \<Rightarrow> nat
     \<Rightarrow> nat list \<Rightarrow> hypothesis list \<times> hypothesis list \<times> nat
     \<Rightarrow> error + (hypothesis list \<times> hypothesis list \<times> nat)" where
  "chunk_loop d n c p ctc_log_probs chunks xtime [] s = Inr s"
| "chunk_loop d n c p ctc_log_probs chunks xtime (t # ts) s =
     (case chunk_step d n c p ctc_log_probs chunks xtime t s of
        Inl e \<Rightarrow> Inl e
      | Inr (s1, brk) \<Rightarrow>
          if brk then Inr s1 else chunk_loop d n c p ctc_log_probs chunks xtime ts s1)"

text \<open>The argument \<^verbatim>\<open>hyps_segment\<close>: \<^verbatim>\<open>None\<close> for the first chunk, the default
  \<^verbatim>\<open>False\<close>, or the live hypotheses of the previous chunk.\<close>

datatype seg_arg = SegNone | SegFalse | Seg "hypothesis list"

text \<open>Lines 1235--1245: the initial hypothesis of the first chunk.\<close>

definition init_hyp_chunk ::
  "decoder \<Rightarrow> net \<Rightarrow> collab \<Rightarrow> tensor option \<Rightarrow> dstate pydict option \<Rightarrow> tensor option
     \<Rightarrow> hypothesis" where
  "init_hyp_chunk d n c ctc_log_probs dstates0 lmstate0 =
     \<lparr>hyp = [eos d], score = 0, score_attn = 0, score_cp = 0, score_ctc = 0, score_lm = 0,
      dstates = dstates0, cv = replicate (enc_n_units n) 0, aws = [None],
      lmstate = lmstate0,
      ctc_state = (if ctc_log_probs \<noteq> None then Some (ctc_initial_state c) else None),
      ensmbl_dstate = [], ensmbl_cv = [], ensmbl_aws = [],
      no_trigger = False\<rparr>"

text \<open>
  Lines 1213--1225: the attention cache is cleared, and with CTC log-probabilities the
  streaming scorer is created (first chunk) or given the new chunk.
\<close>

definition register_chunk ::
  "params \<Rightarrow> dec_state \<Rightarrow> tensor option \<Rightarrow> seg_arg \<Rightarrow> error + dec_state" where
  "register_chunk p st ctc_log_probs hyps_segment =
     (case ctc_log_probs of
        None \<Rightarrow> Inr st
      | Some lp \<Rightarrow>
          if \<not> 0 < recog_ctc_weight p then Inl AssertionError
          else if hyps_segment = SegNone then Inr (st\<lparr>ctc_chunks := Some [lp]\<rparr>)
          else (case ctc_chunks st of
                  None \<Rightarrow> Inl AttributeError
                | Some chs \<Rightarrow> Inr (st\<lparr>ctc_chunks := Some (chs @ [lp])\<rparr>)))"

text \<open>
  \<^verbatim>\<open>beam_search_chunk_sync\<close> without second-pass rescoring, on a chunk of \<open>bs\<close> rows and
  \<open>xtime\<close> frames. The result is paired with the attributes of the decoder object as the
  call leaves them, also when it raises.
\<close>

definition beam_search_chunk_sync ::
  "decoder \<Rightarrow> net \<Rightarrow> collab \<Rightarrow> dec_state \<Rightarrow> nat \<Rightarrow> nat \<Rightarrow> params \<Rightarrow> tensor option \<Rightarrow> seg_arg
     \<Rightarrow> bool \<Rightarrow> (error + (hypothesis list \<times> hypothesis list)) \<times> dec_state" where
  "beam_search_chunk_sync d n c st bs xtime p ctc_log_probs hyps_segment state_carry_over =
     (if bs \<noteq> 1 then (Inl AssertionError, st)
      else if attn_type d \<noteq> ''mocha'' then (Inl AssertionError, st)
      else if lm c \<noteq> None \<and> \<not> 0 < recog_lm_weight p then (Inl AssertionError, st)
      else
        (let st1 = st\<lparr>score_cache := None\<rparr> in
         case register_chunk p st1 ctc_log_probs hyps_segment of
           Inl e \<Rightarrow> (Inl e, st1)
         | Inr st2 \<Rightarrow>
             (let dstates0 = (if state_carry_over then dstates_final st2
                              else Some (zero_state d n));
                  lmstate0 = (if state_carry_over
                                 \<and> (case lm c of None \<Rightarrow> False | Some m \<Rightarrow> is_rnnlm m)
                              then lmstate_final st2 else None);
                  st3 = (if hyps_segment = SegNone then st2\<lparr>n_frames := Some 0\<rparr> else st2);
                  ytime = \<lfloor>real xtime * recog_max_len_ratio p\<rfloor> + 1
              in
              case hyps_segment of
                SegFalse \<Rightarrow> (Inl TypeError, st3)
              | _ \<Rightarrow>
                  (case chunk_loop d n c p ctc_log_probs (ctc_chunks st3) xtime [0..<nat ytime]
                          (case hyps_segment of
                             Seg hs \<Rightarrow> hs
                           | _ \<Rightarrow> [init_hyp_chunk d n c ctc_log_probs dstates0 lmstate0],
                           [], 1) of
                     Inl e \<Rightarrow> (Inl e, st3)
                   | Inr (hyps1, end_hyps, n_prev) \<Rightarrow>
                       (let ends = (if 0 < length end_hyps then sorted_by_score end_hyps
                                    else end_hyps);
                            st4 = (if 0 < length ends
                                   then st3\<lparr>dstates_final := dstates (hd ends),
                                            lmstate_final := lmstate (hd ends)\<rparr>
                                   else st3)
                        in
                        case n_frames st4 of
                          None \<Rightarrow> (Inl AttributeError, st4)
                        | Some k \<Rightarrow> (Inr (ends, hyps1), st4\<lparr>n_frames := Some (k + xtime)\<rparr>))))))"
subsection \<open>Greedy decoding\<close>

text \<open>\<^verbatim>\<open>argmax(-1)\<close> of one row; among equal maxima the first index.\<close>

definition argmax :: "real list \<Rightarrow> error + nat" where
  "argmax xs = (case argsort_desc xs of [] \<Rightarrow> Inl RuntimeError | i # is \<Rightarrow> Inr i)"

text \<open>The variables of the loop that belong to one utterance of the batch: the token fed
  next, the decoder state, the context vector, the attention weights and the state of the
  fused language model.\<close>

record greedy_row =
  g_y :: nat
  g_dstate :: dstate
  g_cv :: tensor
  g_aw :: "attn option"
  g_lmstate :: "tensor option"

record greedy_state =
  g_rows :: "greedy_row list"
  hyps_batch :: "nat list list"
  aws_batch :: "attn list list"
  ylens :: "nat list"
  g_eos_flags :: "bool list"

text \<open>Lines 763--773 for utterance \<open>b\<close>: the step of the decoder and the best token.\<close>

definition greedy_row_step ::
  "decoder \<Rightarrow> collab \<Rightarrow> net \<times> greedy_row \<Rightarrow> error + greedy_row" where
  "greedy_row_step d c x =
     (case x of (n, g) \<Rightarrow>
        (case (case self_lm c of
                 None \<Rightarrow> (None, g_lmstate g)
               | Some m \<Rightarrow> (case decode m (g_y g) (g_lmstate g) of
                             (lmout, st) \<Rightarrow> (Some lmout, Some st))) of
           (lmout, lmst) \<Rightarrow>
             bind_e (decode_step d n (g_dstate g) (g_cv g) (embed n (g_y g)) (g_aw g) lmout True)
               (\<lambda>r. case r of (nd, cv1, aw1, attn_v) \<Rightarrow>
                  bind_e (argmax (output_logits n attn_v)) (\<lambda>y.
                    Inr \<lparr>g_y = y, g_dstate = dstate nd, g_cv = cv1, g_aw = Some aw1,
                         g_lmstate = lmst\<rparr>))))"

text \<open>Lines 777--781: the lengths and the end-symbol flags.\<close>

definition count_lengths ::
  "decoder \<Rightarrow> nat list \<Rightarrow> nat list \<times> bool list \<Rightarrow> nat list \<times> bool list" where
  "count_lengths d ys lf =
     (map (\<lambda>x. case x of (y, len, flag) \<Rightarrow> if \<not> flag then len + 1 else len)
        (zip ys (zip (fst lf) (snd lf))),
      map (\<lambda>x. case x of (y, len, flag) \<Rightarrow> if \<not> flag then y = eos d else flag)
        (zip ys (zip (fst lf) (snd lf))))"

text \<open>Lines 763--781, one pass of the loop up to the tests that leave it.\<close>

definition greedy_step ::
  "decoder \<Rightarrow> collab \<Rightarrow> net list \<Rightarrow> greedy_state \<Rightarrow> error + greedy_state" where
  "greedy_step d c nets s =
     bind_e (mapM_e (greedy_row_step d c) (zip nets (g_rows s))) (\<lambda>rows.
       (case count_lengths d (map g_y rows) (ylens s, g_eos_flags s) of
          (lens, flags) \<Rightarrow>
            Inr \<lparr>g_rows = rows,
                 hyps_batch = hyps_batch s @ [map g_y rows],
                 aws_batch = aws_batch s @ [map (\<lambda>g. case g_aw g of None \<Rightarrow> [] | Some a \<Rightarrow> a) rows],
                 ylens = lens, g_eos_flags = flags\<rparr>))"

text \<open>Lines 789--792: in oracle mode the next input is the reference token.\<close>

definition teacher_force ::
  "bool \<Rightarrow> nat list list option \<Rightarrow> nat \<Rightarrow> greedy_state \<Rightarrow> error + greedy_state" where
  "teacher_force oracle refs_id t s =
     (if oracle then
        (case refs_id of
           None \<Rightarrow> Inl TypeError
         | Some rs \<Rightarrow>
             bind_e (mapM_e (\<lambda>b. bind_e (getitem rs b) (\<lambda>r. getitem r t)) [0..<length (g_rows s)])
               (\<lambda>ys. Inr (s\<lparr>g_rows := map (\<lambda>x. case x of (g, y) \<Rightarrow> g\<lparr>g_y := y\<rparr>)
                                         (zip (g_rows s) ys)\<rparr>)))
      else Inr s)"

text \<open>The loop \<^verbatim>\<open>for t in range(ytime)\<close> with its two \<^verbatim>\<open>break\<close> tests.\<close>

fun greedy_loop ::
  "decoder \<Rightarrow> collab \<Rightarrow> net list \<Rightarrow> bool \<Rightarrow> nat list list option \<Rightarrow> int \<Rightarrow> nat list
     \<Rightarrow> greedy_state \<Rightarrow> error + greedy_state" where
  "greedy_loop d c nets oracle refs_id yt [] s = Inr s"
| "greedy_loop d c nets oracle refs_id yt (t # ts) s =
     (case greedy_step d c nets s of
        Inl e \<Rightarrow> Inl e
      | Inr s1 \<Rightarrow>
          if length (filter id (g_eos_flags s1)) = length nets then Inr s1
          else if int t = yt - 1 then Inr s1
          else (case teacher_force oracle refs_id t s1 of
                  Inl e \<Rightarrow> Inl e
                | Inr s2 \<Rightarrow> greedy_loop d c nets oracle refs_id yt ts s2))"

text \<open>Lines 757--761: the number of steps.\<close>

definition greedy_ytime ::
  "bool \<Rightarrow> nat list list option \<Rightarrow> nat \<Rightarrow> nat \<Rightarrow> real \<Rightarrow> error + int" where
  "greedy_ytime oracle refs_id bs xtime max_len_ratio =
     (if oracle then
        (case refs_id of
           None \<Rightarrow> Inl AssertionError
         | Some rs \<Rightarrow>
             bind_e (mapM_e (\<lambda>b. bind_e (getitem rs b) (\<lambda>r. Inr (length r))) [0..<bs]) (\<lambda>lens.
               if lens = [] then Inl ValueError else Inr (int (fold max lens 0) + 1)))
      else Inr (\<lfloor>real xtime * max_len_ratio\<rfloor> + 1))"

text \<open>
  \<^verbatim>\<open>greedy\<close> on a batch whose utterance \<open>b\<close> has the layers \<open>nets ! b\<close>. The result is the
  list of token sequences and the attention weights. \<^verbatim>\<open>torch.cat\<close> of the empty list
  of steps raises.
\<close>

definition greedy ::
  "decoder \<Rightarrow> collab \<Rightarrow> net list \<Rightarrow> nat \<Rightarrow> real \<Rightarrow> bool \<Rightarrow> bool \<Rightarrow> nat list list option
     \<Rightarrow> error + (nat list list \<times> attn list list)" where
  "greedy d c nets xtime max_len_ratio exclude_eos oracle refs_id =
     bind_e (if replace_sos d then
               (case refs_id of
                  None \<Rightarrow> Inl TypeError
                | Some rs \<Rightarrow> bind_e (getitem rs 0) (\<lambda>r. getitem r 0))
             else Inr (eos d)) (\<lambda>y0.
     bind_e (greedy_ytime oracle refs_id (length nets) xtime max_len_ratio) (\<lambda>yt.
     bind_e (greedy_loop d c nets oracle refs_id yt [0..<nat yt]
               \<lparr>g_rows = map (\<lambda>n. \<lparr>g_y = y0,
                                    g_dstate = zero_dstate d n,
                                    g_cv = replicate (enc_n_units n) 0,
                                    g_aw = None, g_lmstate = None\<rparr>) nets,
                hyps_batch = [], aws_batch = [],
                ylens = replicate (length nets) 0,
                g_eos_flags = replicate (length nets) False\<rparr>) (\<lambda>s.
       if hyps_batch s = [] then Inl RuntimeError
       else
         (let hyps0 = map (\<lambda>b. take (ylens s ! b) (map (\<lambda>ys. ys ! b) (hyps_batch s)))
                        [0..<length nets];
              aws0 = map (\<lambda>b. take (ylens s ! b) (map (\<lambda>ws. ws ! b) (aws_batch s)))
                        [0..<length nets];
              hyps1 = (if bwd d then map rev hyps0 else hyps0);
              aws1 = (if bwd d then map rev aws0 else aws0);
              hyps2 = (if exclude_eos then
                         map (\<lambda>x. case x of (h, flag) \<Rightarrow>
                                if flag then (if bwd d then tl h else butlast h) else h)
                           (zip hyps1 (g_eos_flags s))
                       else hyps1)
          in Inr (hyps2, aws1)))))"
text \<open>A decoder used for the concrete evaluations of the recurrent cell: one LSTM layer
  whose cell returns a zero hidden state, dropout switched off (evaluation mode), and a
  projection with unit weight and unit bias.\<close>

definition cell_decoder :: decoder where
  "cell_decoder =
     \<lparr>eos = 2, n_layers = 1, rnn_type = LSTM, n_projs = 1, attn_type = ''location'',
      bwd = False, replace_sos = False,
      rnn_lstm = (\<lambda>l x hc. (map (\<lambda>v. 0) (fst hc), snd hc)),
      rnn_gru = (\<lambda>l x h. h),
      dropout = (\<lambda>x. x),
      proj = (\<lambda>l x. map (\<lambda>v. v + 1) x)\<rparr>"


subsection \<open>Concrete decoders and inputs\<close>

text \<open>
  A decoder with one LSTM layer and no projection, whose collaborators ignore their
  input: the cell keeps its state, the attention puts all weight on the one encoder frame,
  and the output distribution over the vocabulary \<open>{0, 1, 2, 3}\<close> (end symbol \<open>2\<close>) is
  fixed. In \<open>toy_net\<close> token \<open>3\<close> has probability \<open>1/2\<close> and the end symbol \<open>1/4\<close>; in
  \<open>eos_net\<close> the end symbol has probability \<open>1/2\<close> and token \<open>3\<close> has \<open>1/4\<close>.
\<close>

definition toy_decoder :: decoder where
  "toy_decoder =
     \<lparr>eos = 2, n_layers = 1, rnn_type = LSTM, n_projs = 0, attn_type = ''location'',
      bwd = False, replace_sos = False,
      rnn_lstm = (\<lambda>l x hc. hc),
      rnn_gru = (\<lambda>l x h. h),
      dropout = (\<lambda>x. x),
      proj = (\<lambda>l x. x)\<rparr>"

definition toy_net :: net where
  "toy_net =
     \<lparr>embed = (\<lambda>y. [0]),
      attend = (\<lambda>cache q aw. ([0], [[1]])),
      generate = (\<lambda>cv1 dout lmout. [0]),
      output_logits = (\<lambda>v. [0, 0, ln 2, ln 4]),
      output_probs = (\<lambda>s v. [1/8, 1/8, 1/4, 1/2]),
      output_log_probs = (\<lambda>v. [ln (1/8), ln (1/8), ln (1/4), ln (1/2)]),
      n_heads = 1, enc_n_units = 1, dec_n_units = 1\<rparr>"

definition eos_net :: net where
  "eos_net =
     \<lparr>embed = (\<lambda>y. [0]),
      attend = (\<lambda>cache q aw. ([0], [[1]])),
      generate = (\<lambda>cv1 dout lmout. [0]),
      output_logits = (\<lambda>v. [0, 0, ln 4, ln 2]),
      output_probs = (\<lambda>s v. [1/8, 1/8, 1/2, 1/4]),
      output_log_probs = (\<lambda>v. [ln (1/8), ln (1/8), ln (1/2), ln (1/4)]),
      n_heads = 1, enc_n_units = 1, dec_n_units = 1\<rparr>"

text \<open>No language model, no CTC scorer, no ensemble.\<close>

definition no_collab :: collab where
  "no_collab =
     \<lparr>self_lm = None, lm = None, ctc_prefix_score = None,
      ctc_streaming = (\<lambda>chs new_chunk prefix ids st. ([], [])),
      ctc_initial_state = [], ensmbl_decs = []\<rparr>"

text \<open>Beam width \<open>2\<close>, the end-symbol threshold \<open>3/2\<close>, no penalties, at most
  \<open>elen + 1\<close> steps.\<close>

definition toy_params :: params where
  "toy_params =
     \<lparr>recog_oracle = False, recog_beam_width = 2, recog_ctc_weight = 0,
      recog_max_len_ratio = 1, recog_min_len_ratio = 0, recog_length_penalty = 0,
      recog_coverage_penalty = 0, recog_coverage_threshold = 0, recog_length_norm = False,
      recog_lm_weight = 0, recog_gnmt_decoding = False, recog_eos_threshold = 3/2,
      recog_softmax_smoothing = 1,
      recog_asr_state_carry_over = False, recog_lm_state_carry_over = False\<rparr>"

definition fresh_state :: dec_state where
  "fresh_state =
     \<lparr>prev_spk = [], dstates_final = None, lmstate_final = None, score_cache = None,
      ctc_chunks = None, n_frames = None\<rparr>"

text \<open>A hypothesis of \<open>toy_decoder\<close> with the given tokens and score, and the results of
  one decoder step on it.\<close>

definition toy_hyp :: "nat list \<Rightarrow> real \<Rightarrow> hypothesis" where
  "toy_hyp toks sc =
     \<lparr>hyp = toks, score = sc, score_attn = sc, score_cp = 0, score_ctc = 0, score_lm = 0,
      dstates = Some (zero_state toy_decoder toy_net), cv = [0],
      aws = None # replicate (length toks - 1) (Some [[1]]),
      lmstate = None, ctc_state = None, ensmbl_dstate = [], ensmbl_cv = [], ensmbl_aws = [],
      no_trigger = False\<rparr>"


definition toy_row :: "nat \<Rightarrow> row_out" where
  "toy_row y = \<lparr>o_y = y, o_lmout = None, o_dstate = ([[0]], Some [[0]]),
                o_cv = [0], o_aw = [[1]], o_lmstate = None,
                o_scores_lm = None, o_attn_v = [0]\<rparr>"

definition toy_phase :: "nat \<Rightarrow> phase_out" where
  "toy_phase y = \<lparr>ph_rows = [toy_row y],
            ph_scores_attn = [[3 * ln (1/2), 3 * ln (1/2), 2 * ln (1/2), ln (1 / 2)]],
            ph_ensmbl_dstate = [], ph_ensmbl_cv = [], ph_ensmbl_aws = []\<rparr>"


text \<open>Variants of \<open>toy_params\<close>: a minimum length ratio of \<open>1/2\<close>, a length penalty of
  \<open>1\<close>, a length penalty of \<open>-1\<close>.\<close>

definition short_params :: params where
  "short_params = toy_params\<lparr>recog_min_len_ratio := 1/2\<rparr>"

definition lp_params :: params where
  "lp_params = toy_params\<lparr>recog_length_penalty := 1\<rparr>"

definition neg_lp_params :: params where
  "neg_lp_params = toy_params\<lparr>recog_length_penalty := -1\<rparr>"

definition eos_phase :: "nat \<Rightarrow> phase_out" where
  "eos_phase y = \<lparr>ph_rows = [toy_row y],
            ph_scores_attn = [[3 * ln (1/2), 3 * ln (1/2), ln (1/2), 2 * ln (1 / 2)]],
            ph_ensmbl_dstate = [], ph_ensmbl_cv = [], ph_ensmbl_aws = []\<rparr>"


text \<open>An ensemble of one further decoder, \<open>toy_decoder\<close> on \<open>eos_net\<close>.\<close>

definition ens_collab :: collab where
  "ens_collab = no_collab\<lparr>ensmbl_decs := [(toy_decoder, eos_net)]\<rparr>"

text \<open>A decoder with MoChA attention, and layers whose attention finds no trigger point:
  all attention weights are zero.\<close>

definition mocha_decoder :: decoder where
  "mocha_decoder = toy_decoder\<lparr>attn_type := ''mocha''\<rparr>"

definition silent_net :: net where
  "silent_net = toy_net\<lparr>attend := (\<lambda>cache q aw. ([0], [[0]]))\<rparr>"
section \<open>Auxiliary facts\<close>

lemma bind_e_Inr_iff:
  "bind_e m f = Inr y \<longleftrightarrow> (\<exists>x. m = Inr x \<and> f x = Inr y)"
  by (cases m) (simp_all add: bind_e_def)

lemma bind_e_Inr [simp]: "bind_e (Inr x) f = f x"
  by (simp add: bind_e_def)

lemma bind_e_Inl [simp]: "bind_e (Inl e) f = Inl e"
  by (simp add: bind_e_def)

lemma mapM_e_Inr_length:
  "mapM_e f xs = Inr ys \<Longrightarrow> length ys = length xs"
  by (induction xs arbitrary: ys) (auto split: sum.splits)

lemma mapM_e_Inr_nth:
  "mapM_e f xs = Inr ys \<Longrightarrow> i < length xs \<Longrightarrow> f (xs ! i) = Inr (ys ! i)"
proof (induction xs arbitrary: ys i)
  case Nil
  then show ?case by simp
next
  case (Cons x xs)
  then show ?case by (cases i) (auto split: sum.splits)
qed

lemma mapM_e_Inl:
  "x \<in> set xs \<Longrightarrow> f x = Inl e \<Longrightarrow> \<exists>e'. mapM_e f xs = Inl e'"
  by (induction xs) (auto split: sum.splits)

lemma argsort_desc_set: "set (argsort_desc xs) = {0..<length xs}"
  by (simp add: argsort_desc_def)

lemma argsort_desc_distinct: "distinct (argsort_desc xs)"
  by (simp add: argsort_desc_def)

lemma argsort_desc_length: "length (argsort_desc xs) = length xs"
  by (simp add: argsort_desc_def)

lemma argsort_desc_sorted: "sorted (map (\<lambda>i. - (xs ! i)) (argsort_desc xs))"
  by (simp add: argsort_desc_def)

lemma topk_Inr:
  assumes "topk k xs = Inr (vals, ids)"
  shows "ids = take k (argsort_desc xs)" and "vals = map ((!) xs) ids"
    and "length ids = k" and "length vals = k" and "k \<le> length xs"
    and "distinct ids" and "set ids \<subseteq> {0..<length xs}"
    and "sorted (map (\<lambda>v. - v) vals)"
proof -
  from assms have k: "k \<le> length xs" and ids: "ids = take k (argsort_desc xs)"
    and vals: "vals = map ((!) xs) ids"
    by (auto simp: topk_def Let_def split: if_splits)
  show "ids = take k (argsort_desc xs)" "vals = map ((!) xs) ids" "k \<le> length xs"
    by fact+
  show "length ids = k" using k ids by (simp add: argsort_desc_length)
  then show "length vals = k" using vals by simp
  show "distinct ids" using ids by (simp add: argsort_desc_distinct)
  show "set ids \<subseteq> {0..<length xs}"
    using ids set_take_subset [of k "argsort_desc xs"] by (simp add: argsort_desc_set)
  have "sorted (take k (map (\<lambda>i. - (xs ! i)) (argsort_desc xs)))"
    using argsort_desc_sorted sorted_wrt_take by blast
  then show "sorted (map (\<lambda>v. - v) vals)"
    by (simp add: vals ids take_map comp_def)
qed

lemma topk_largest:
  assumes "topk k xs = Inr (vals, ids)" and "i \<in> set ids" and "j < length xs" and "j \<notin> set ids"
  shows "xs ! j \<le> xs ! i"
proof -
  let ?a = "argsort_desc xs"
  from assms(1) have ids: "ids = take k ?a" by (rule topk_Inr)
  have "j \<in> set ?a" using assms(3) by (simp add: argsort_desc_set)
  then have "j \<in> set (take k ?a) \<union> set (drop k ?a)"
    by (metis append_take_drop_id set_append)
  with assms(4) ids have j: "j \<in> set (drop k ?a)" by simp
  have "sorted (map (\<lambda>i. - (xs ! i)) (take k ?a) @ map (\<lambda>i. - (xs ! i)) (drop k ?a))"
    using argsort_desc_sorted [of xs] by (metis append_take_drop_id map_append)
  then have "\<forall>x\<in>set (take k ?a). \<forall>y\<in>set (drop k ?a). - (xs ! x) \<le> - (xs ! y)"
    unfolding sorted_append by simp
  with j assms(2) ids show ?thesis by auto
qed

lemma perm_of_upt:
  assumes "distinct js" and "length js = k" and "set js \<subseteq> {0..<k}"
  shows "set js = {0..<k}"
proof -
  have "card (set js) = k" using assms(1,2) distinct_card by blast
  then show ?thesis using assms(3)
    by (metis card_atLeastLessThan card_subset_eq finite_atLeastLessThan minus_nat.diff_0)
qed

lemma reindex_set:
  assumes "distinct js" and "length js = length ids" and "set js \<subseteq> {0..<length ids}"
  shows "set (map ((!) ids) js) = set ids"
proof -
  have "set js = {0..<length ids}" using assms by (intro perm_of_upt) simp_all
  then have "set (map ((!) ids) js) = (!) ids ` {0..<length ids}" by simp
  also have "\<dots> = set ids" by (auto simp: set_conv_nth)
  finally show ?thesis .
qed

lemma reindex_distinct:
  assumes "distinct js" and "set js \<subseteq> {0..<length ids}" and "distinct ids"
  shows "distinct (map ((!) ids) js)"
proof -
  have "inj_on ((!) ids) {0..<length ids}"
    using assms(3) by (simp add: inj_on_nth)
  then have "inj_on ((!) ids) (set js)" using assms(2) inj_on_subset by blast
  with assms(1) show ?thesis by (simp add: distinct_map)
qed

lemma add_length_penalty_length [simp]:
  "length (add_length_penalty p beam vs) = length vs"
  by (simp add: add_length_penalty_def Let_def)

lemma lm_scores_length:
  assumes "lm_scores c p beam r ids = Inr tsl" and "length ids = recog_beam_width p"
  shows "length tsl = recog_beam_width p"
  using assms
  by (auto simp: lm_scores_def dest: mapM_e_Inr_length split: if_splits option.splits)


subsection \<open>Evaluation of the concrete decoders\<close>

lemma ln4: "ln (1/4::real) = 2 * ln (1/2)"
proof -
  have "ln ((1/2::real)^2) = 2 * ln (1/2)" by (subst ln_realpow) simp_all
  then show ?thesis by (simp add: power2_eq_square)
qed
lemma ln8: "ln (1/8::real) = 3 * ln (1/2)"
proof -
  have "ln ((1/2::real)^3) = 3 * ln (1/2)" by (subst ln_realpow) simp_all
  then show ?thesis by (simp add: power3_eq_cube)
qed
lemma lnh: "ln (1/2::real) < 0" by simp

lemma toy_net_fields:
  "embed toy_net y = [0]" "attend toy_net cache q aw = ([0], [[1]])"
  "generate toy_net cv1 dout lmout = [0]"
  "output_probs toy_net sm v = [1/8, 1/8, 1/4, 1/2]"
  "n_heads toy_net = 1" "enc_n_units toy_net = 1" "dec_n_units toy_net = 1"
  by (simp_all add: toy_net_def)

lemma toy_decoder_fields:
  "eos toy_decoder = 2" "n_layers toy_decoder = 1" "rnn_type toy_decoder = LSTM"
  "n_projs toy_decoder = 0" "bwd toy_decoder = False" "replace_sos toy_decoder = False"
  "rnn_lstm toy_decoder l x hc = hc" "dropout toy_decoder x = x"
  by (simp_all add: toy_decoder_def)

lemma no_collab_fields:
  "self_lm no_collab = None" "lm no_collab = None" "ctc_prefix_score no_collab = None"
  "ensmbl_decs no_collab = []"
  by (simp_all add: no_collab_def)

lemma toy_params_fields:
  "recog_oracle toy_params = False" "recog_beam_width toy_params = 2"
  "recog_ctc_weight toy_params = 0" "recog_max_len_ratio toy_params = 1"
  "recog_min_len_ratio toy_params = 0" "recog_length_penalty toy_params = 0"
  "recog_coverage_penalty toy_params = 0" "recog_length_norm toy_params = False"
  "recog_eos_threshold toy_params = 3/2" "recog_softmax_smoothing toy_params = 1"
  by (simp_all add: toy_params_def)

lemma toy_hyp_fields:
  "hyp (toy_hyp toks sc) = toks" "score (toy_hyp toks sc) = sc"
  "score_attn (toy_hyp toks sc) = sc" "score_lm (toy_hyp toks sc) = 0"
  "dstates (toy_hyp toks sc) = Some [(KStr ''dstate'', ([[0]], Some [[0]]))]"
  "cv (toy_hyp toks sc) = [0]"
  "aws (toy_hyp toks sc) = None # replicate (length toks - 1) (Some [[1]])"
  "lmstate (toy_hyp toks sc) = None" "ctc_state (toy_hyp toks sc) = None"
  by (simp_all add: toy_hyp_def zero_state_def zero_dstate_def toy_net_fields
      toy_decoder_fields)

lemma toy_decode_step:
  "decode_step toy_decoder toy_net ([[0]], Some [[0]]) [0] [0] aw None True
     = Inr (\<lparr>dout_score = Some [0], dout_gen = [0], dstate = ([[0]], Some [[0]])\<rparr>, [0], [[1]], [0])"
  by (simp add: decode_step_def recurrency_def recurrency_layer_def rnn_cell_def getitem_def
      toy_decoder_fields toy_net_fields Let_def)

lemma toy_main_row:
  "main_row toy_decoder toy_net no_collab t True (toy_hyp toks sc, y, ([[0]], Some [[0]]), None)
    = Inr \<lparr>o_y = y, o_lmout = None, o_dstate = ([[0]], Some [[0]]),
                o_cv = [0], o_aw = [[1]], o_lmstate = None,
                o_scores_lm = None, o_attn_v = [0]\<rparr>"
  by (simp add: main_row_def lm_predict_def no_collab_fields toy_hyp_fields toy_net_fields
      toy_decode_step)

lemma toy_main_phase:
  assumes "toks \<noteq> []"
  shows "main_phase toy_decoder toy_net no_collab toy_params None 0 t [toy_hyp toks sc]
    = Inr [\<lparr>o_y = last toks, o_lmout = None, o_dstate = ([[0]], Some [[0]]),
                o_cv = [0], o_aw = [[1]], o_lmstate = None,
                o_scores_lm = None, o_attn_v = [0]\<rparr>]"
  using assms
  by (simp add: main_phase_def prev_idx_def last_e_def toy_hyp_fields toy_decoder_fields
      toy_params_fields subscript_def dict_get_def batch_lmstate_def no_collab_fields
      toy_main_row)

lemma toy_score_phase:
  assumes "toks \<noteq> []"
  shows "score_phase toy_decoder toy_net no_collab toy_params None 0 t [toy_hyp toks sc]
    = Inr \<lparr>ph_rows = [\<lparr>o_y = last toks, o_lmout = None, o_dstate = ([[0]], Some [[0]]),
                o_cv = [0], o_aw = [[1]], o_lmstate = None,
                o_scores_lm = None, o_attn_v = [0]\<rparr>],
            ph_scores_attn = [[3 * ln (1/2), 3 * ln (1/2), 2 * ln (1/2), ln (1 / 2)]],
            ph_ensmbl_dstate = [], ph_ensmbl_cv = [], ph_ensmbl_aws = []\<rparr>"
  using assms
  by (simp add: score_phase_def toy_main_phase no_collab_fields toy_net_fields
      add_probs_def ln4 ln8)

lemma upt4: "[0..<4] = [0, 1, 2, 3]" by (simp add: upt_rec)
lemma upt2: "[0..<2] = [0, 1]" by (simp add: upt_rec)

lemma toy_topk:
  assumes "L < (0::real)"
  shows "topk 2 [sc + 3 * L, sc + 3 * L, sc + 2 * L, sc + L] = Inr ([sc + L, sc + 2 * L], [3, 2])"
  using assms by (simp add: topk_def argsort_desc_def upt4 Let_def)

lemma toy_candidates:
  "candidates toy_net no_collab toy_params (toy_hyp toks sc) r
      [3 * ln (1/2), 3 * ln (1/2), 2 * ln (1/2), ln (1 / 2)] aw
    = Inr \<lparr>topk_ids = [3, 2], total_scores_topk = [sc + ln (1/2), sc + 2 * ln (1/2)],
           total_scores_attn = [sc + 3 * ln (1/2), sc + 3 * ln (1/2), sc + 2 * ln (1/2), sc + ln (1/2)],
           total_scores_lm = [0, 0], total_scores_ctc = [0, 0], cp = 0, ctc_states = [],
           joint_ids_topk = None\<rparr>"
  using toy_topk [OF lnh, of sc]
  by (simp add: candidates_def toy_params_fields toy_hyp_fields no_collab_fields lm_scores_def
      add_length_penalty_def coverage_penalty_def Let_def numeral_2_eq_2)

lemma toy_eos_rejected:
  assumes "toks \<noteq> []"
  shows "eos_rejected toy_decoder toy_params elen (toy_hyp toks sc)
      [3 * ln (1/2), 3 * ln (1/2), 2 * ln (1/2), ln (1 / 2)] = Inr True"
  using assms lnh
  by (simp add: eos_rejected_def toy_params_fields toy_decoder_fields toy_hyp_fields
      tensor_max_def getitem_def max_def)

lemma toy_extend0:
  assumes "toks \<noteq> []"
  shows "extend_hyp toy_decoder toy_params elen (toy_phase y) (toy_hyp toks sc) (toy_row y)
      [3 * ln (1/2), 3 * ln (1/2), 2 * ln (1/2), ln (1 / 2)]
      \<lparr>topk_ids = [3, 2], total_scores_topk = [sc + ln (1/2), sc + 2 * ln (1/2)],
           total_scores_attn = [sc + 3 * ln (1/2), sc + 3 * ln (1/2), sc + 2 * ln (1/2), sc + ln (1/2)],
           total_scores_lm = [0, 0], total_scores_ctc = [0, 0], cp = 0, ctc_states = [],
           joint_ids_topk = None\<rparr> 0
     = Inr (Some (toy_hyp (toks @ [3]) (sc + ln (1/2))))"
  using assms
  apply (simp add: extend_hyp_def getitem_def toy_params_fields toy_decoder_fields Let_def
       toy_hyp_fields)
  apply (simp add: toy_hyp_def toy_phase_def toy_row_def zero_state_def zero_dstate_def
      toy_net_fields toy_decoder_fields)
  apply (cases toks; simp add: replicate_append_same)
  done

lemma toy_extend1:
  assumes "toks \<noteq> []"
  shows "extend_hyp toy_decoder toy_params elen (toy_phase y) (toy_hyp toks sc) (toy_row y)
      [3 * ln (1/2), 3 * ln (1/2), 2 * ln (1/2), ln (1 / 2)]
      \<lparr>topk_ids = [3, 2], total_scores_topk = [sc + ln (1/2), sc + 2 * ln (1/2)],
           total_scores_attn = [sc + 3 * ln (1/2), sc + 3 * ln (1/2), sc + 2 * ln (1/2), sc + ln (1/2)],
           total_scores_lm = [0, 0], total_scores_ctc = [0, 0], cp = 0, ctc_states = [],
           joint_ids_topk = None\<rparr> (Suc 0)
     = Inr None"
  using assms
  by (simp add: extend_hyp_def getitem_def toy_params_fields toy_decoder_fields Let_def
       toy_eos_rejected)

lemma toy_expand_beam:
  assumes "toks \<noteq> []"
  shows "expand_beam toy_decoder toy_net no_collab toy_params elen (toy_phase y)
      (toy_hyp toks sc, toy_row y, [3 * ln (1/2), 3 * ln (1/2), 2 * ln (1/2), ln (1 / 2)])
    = Inr [toy_hyp (toks @ [3]) (sc + ln (1/2))]"
  using assms
  by (simp add: expand_beam_def toy_candidates toy_params_fields upt2 toy_extend0 toy_extend1)

lemma toy_phase_fields:
  "ph_rows (toy_phase y) = [toy_row y]"
  "ph_scores_attn (toy_phase y) = [[3 * ln (1/2), 3 * ln (1/2), 2 * ln (1/2), ln (1 / 2)]]"
  by (simp_all add: toy_phase_def)

lemma toy_score_phase':
  assumes "toks \<noteq> []"
  shows "score_phase toy_decoder toy_net no_collab toy_params None 0 t [toy_hyp toks sc]
    = Inr (toy_phase (last toks))"
  using assms by (simp add: toy_score_phase toy_phase_def toy_row_def)

lemma toy_expand_all:
  assumes "toks \<noteq> []"
  shows "expand_all toy_decoder toy_net no_collab toy_params elen (toy_phase y) [toy_hyp toks sc]
    = Inr [toy_hyp (toks @ [3]) (sc + ln (1/2))]"
  using assms by (simp add: expand_all_def toy_phase_fields toy_expand_beam)

lemma toy_beam_step:
  assumes "toks \<noteq> []"
  shows "beam_step toy_decoder toy_net no_collab toy_params None 0 elen t ([toy_hyp toks sc], [])
    = Inr (([toy_hyp (toks @ [3]) (sc + ln (1/2))], []), False)"
  using assms
  by (simp add: beam_step_def toy_score_phase' toy_expand_all toy_params_fields
      sorted_by_score_def is_complete_def toy_hyp_fields toy_decoder_fields Let_def)

lemma toy_beam_loop2:
  "beam_loop toy_decoder toy_net no_collab toy_params None 0 elen [0, 1] ([toy_hyp [2] 0], [])
    = Inr ([toy_hyp [2, 3, 3] (2 * ln (1/2))], [])"
  by (simp add: toy_beam_step)

lemma toy_init:
  "init_hyp toy_decoder toy_net no_collab (Some (zero_state toy_decoder toy_net)) None
     = toy_hyp [2] 0"
  by (simp add: init_hyp_def toy_hyp_def toy_decoder_fields toy_net_fields no_collab_fields)

lemma toy_ytime: "ytime toy_params None 0 1 = Inr 2"
  by (simp add: ytime_def toy_params_fields)

lemma toy_nbest:
  "nbest_list toy_decoder 2 (global_pruning 2 [toy_hyp [2, 3, 3] (2 * ln (1/2))] [])
     = Inl IndexError"
  by (simp add: global_pruning_def nbest_list_def sorted_by_score_def upt2 getitem_def Let_def)

lemma toy_utt:
  "beam_search_utt toy_decoder toy_net no_collab toy_params 2 None 0 1
      (Some (zero_state toy_decoder toy_net)) None = Inl IndexError"
proof -
  have "[0..<nat 2] = [0, 1]" by (simp add: upt_rec)
  then show ?thesis
    unfolding beam_search_utt_def
    by (simp only: toy_ytime bind_e_Inr toy_init toy_beam_loop2 fst_conv snd_conv toy_nbest
        no_collab_fields) simp
qed

lemma toy_beam_search:
  "beam_search toy_decoder fresh_state toy_params 2 False None None [(1, toy_net, no_collab)]
     = (Inl IndexError, fresh_state)"
  using toy_utt
  by (simp add: beam_search_def toy_params_fields no_collab_fields initial_states_def
      fresh_state_def)


lemma short_params_fields:
  "recog_min_len_ratio short_params = 1/2" "recog_eos_threshold short_params = 3/2"
  by (simp_all add: short_params_def toy_params_def)


lemma lp_params_fields:
  "recog_oracle lp_params = False" "recog_beam_width lp_params = 2"
  "recog_ctc_weight lp_params = 0" 
  "recog_length_penalty lp_params = 1" "recog_gnmt_decoding lp_params = False"
  "recog_coverage_penalty lp_params = 0" "recog_lm_weight lp_params = 0"
  by (simp_all add: lp_params_def toy_params_def)

lemma neg_lp_params_fields:
  "recog_length_penalty neg_lp_params = -1" "recog_gnmt_decoding neg_lp_params = False"
  by (simp_all add: neg_lp_params_def toy_params_def)

lemma lp_candidates:
  "candidates toy_net no_collab lp_params (toy_hyp [2] 0) r
      [3 * ln (1/2), 3 * ln (1/2), 2 * ln (1/2), ln (1 / 2)] aw
    = Inr \<lparr>topk_ids = [3, 2], total_scores_topk = [ln (1/2) + 1, 2 * ln (1/2) + 1],
           total_scores_attn = [3 * ln (1/2), 3 * ln (1/2), 2 * ln (1/2), ln (1/2)],
           total_scores_lm = [0, 0], total_scores_ctc = [0, 0], cp = 0, ctc_states = [],
           joint_ids_topk = None\<rparr>"
  using toy_topk [OF lnh, of 0]
  by (simp add: candidates_def lp_params_fields toy_hyp_fields no_collab_fields lm_scores_def
      add_length_penalty_def coverage_penalty_def Let_def numeral_2_eq_2)


lemma eos_net_fields:
  "embed eos_net y = [0]" "attend eos_net cache q aw = ([0], [[1]])"
  "generate eos_net cv1 dout lmout = [0]"
  "output_probs eos_net sm v = [1/8, 1/8, 1/2, 1/4]"
  "n_heads eos_net = 1" "enc_n_units eos_net = 1" "dec_n_units eos_net = 1"
  by (simp_all add: eos_net_def)

lemma eos_phase_fields:
  "ph_rows (eos_phase y) = [toy_row y]"
  "ph_scores_attn (eos_phase y) = [[3 * ln (1/2), 3 * ln (1/2), ln (1/2), 2 * ln (1 / 2)]]"
  "ph_ensmbl_dstate (eos_phase y) = []" "ph_ensmbl_cv (eos_phase y) = []"
  "ph_ensmbl_aws (eos_phase y) = []"
  by (simp_all add: eos_phase_def)

lemma eos_decode_step:
  "decode_step toy_decoder eos_net ([[0]], Some [[0]]) [0] [0] aw None True
     = Inr (\<lparr>dout_score = Some [0], dout_gen = [0], dstate = ([[0]], Some [[0]])\<rparr>, [0], [[1]], [0])"
  by (simp add: decode_step_def recurrency_def recurrency_layer_def rnn_cell_def getitem_def
      toy_decoder_fields eos_net_fields Let_def)

lemma eos_main_row:
  "main_row toy_decoder eos_net no_collab t True (toy_hyp toks sc, y, ([[0]], Some [[0]]), None)
    = Inr (toy_row y)"
  by (simp add: main_row_def lm_predict_def no_collab_fields toy_hyp_fields eos_net_fields
      eos_decode_step toy_row_def)

lemma eos_score_phase:
  assumes "toks \<noteq> []"
  shows "score_phase toy_decoder eos_net no_collab toy_params None 0 t [toy_hyp toks sc]
    = Inr (eos_phase (last toks))"
  using assms
  by (simp add: score_phase_def main_phase_def prev_idx_def last_e_def toy_hyp_fields
      toy_decoder_fields toy_params_fields subscript_def dict_get_def batch_lmstate_def
      no_collab_fields eos_main_row eos_net_fields add_probs_def ln4 ln8 eos_phase_def
      toy_row_def)

lemma eos_topk:
  assumes "L < (0::real)"
  shows "topk 2 [sc + 3 * L, sc + 3 * L, sc + L, sc + 2 * L] = Inr ([sc + L, sc + 2 * L], [2, 3])"
  using assms by (simp add: topk_def argsort_desc_def upt4 Let_def)

lemma eos_candidates:
  "candidates eos_net no_collab toy_params (toy_hyp toks sc) r
      [3 * ln (1/2), 3 * ln (1/2), ln (1/2), 2 * ln (1 / 2)] aw
    = Inr \<lparr>topk_ids = [2, 3], total_scores_topk = [sc + ln (1/2), sc + 2 * ln (1/2)],
           total_scores_attn = [sc + 3 * ln (1/2), sc + 3 * ln (1/2), sc + ln (1/2), sc + 2 * ln (1/2)],
           total_scores_lm = [0, 0], total_scores_ctc = [0, 0], cp = 0, ctc_states = [],
           joint_ids_topk = None\<rparr>"
  using eos_topk [OF lnh, of sc]
  by (simp add: candidates_def toy_params_fields toy_hyp_fields no_collab_fields lm_scores_def
      add_length_penalty_def coverage_penalty_def Let_def numeral_2_eq_2)

lemma eos_accepted:
  assumes "toks \<noteq> []"
  shows "eos_rejected toy_decoder toy_params elen (toy_hyp toks sc)
      [3 * ln (1/2), 3 * ln (1/2), ln (1/2), 2 * ln (1 / 2)] = Inr False"
  using assms lnh
  by (simp add: eos_rejected_def toy_params_fields toy_decoder_fields toy_hyp_fields
      tensor_max_def getitem_def max_def)

lemma toy_hyp_extend:
  assumes "toks \<noteq> []"
  shows "\<lparr>hyp = toks @ [idx], score = s, score_attn = s, score_cp = 0, score_ctc = 0,
          score_lm = 0, dstates = Some [(KStr ''dstate'', ([[0]], Some [[0]]))], cv = [0],
          aws = aws (toy_hyp toks sc) @ [Some [[1]]], lmstate = None, ctc_state = None,
          ensmbl_dstate = [], ensmbl_cv = [], ensmbl_aws = [], no_trigger = False\<rparr>
         = toy_hyp (toks @ [idx]) s"
  using assms
  by (cases toks)
     (simp_all add: toy_hyp_def zero_state_def zero_dstate_def toy_net_fields toy_decoder_fields
        replicate_append_same)

lemma eos_extend0:
  assumes "toks \<noteq> []"
  shows "extend_hyp toy_decoder toy_params elen (eos_phase y) (toy_hyp toks sc) (toy_row y)
      [3 * ln (1/2), 3 * ln (1/2), ln (1/2), 2 * ln (1 / 2)]
      \<lparr>topk_ids = [2, 3], total_scores_topk = [sc + ln (1/2), sc + 2 * ln (1/2)],
           total_scores_attn = [sc + 3 * ln (1/2), sc + 3 * ln (1/2), sc + ln (1/2), sc + 2 * ln (1/2)],
           total_scores_lm = [0, 0], total_scores_ctc = [0, 0], cp = 0, ctc_states = [],
           joint_ids_topk = None\<rparr> 0
     = Inr (Some (toy_hyp (toks @ [2]) (sc + ln (1/2))))"
  using assms
  by (simp add: extend_hyp_def getitem_def toy_params_fields toy_decoder_fields Let_def
       toy_hyp_fields(1) eos_accepted eos_phase_fields toy_row_def toy_hyp_extend)

lemma eos_extend1:
  assumes "toks \<noteq> []"
  shows "extend_hyp toy_decoder toy_params elen (eos_phase y) (toy_hyp toks sc) (toy_row y)
      [3 * ln (1/2), 3 * ln (1/2), ln (1/2), 2 * ln (1 / 2)]
      \<lparr>topk_ids = [2, 3], total_scores_topk = [sc + ln (1/2), sc + 2 * ln (1/2)],
           total_scores_attn = [sc + 3 * ln (1/2), sc + 3 * ln (1/2), sc + ln (1/2), sc + 2 * ln (1/2)],
           total_scores_lm = [0, 0], total_scores_ctc = [0, 0], cp = 0, ctc_states = [],
           joint_ids_topk = None\<rparr> (Suc 0)
     = Inr (Some (toy_hyp (toks @ [3]) (sc + 2 * ln (1/2))))"
  using assms
  by (simp add: extend_hyp_def getitem_def toy_params_fields toy_decoder_fields Let_def
       toy_hyp_fields(1) eos_phase_fields toy_row_def toy_hyp_extend)

lemma eos_expand_all:
  assumes "toks \<noteq> []"
  shows "expand_all toy_decoder eos_net no_collab toy_params elen (eos_phase y) [toy_hyp toks sc]
    = Inr [toy_hyp (toks @ [2]) (sc + ln (1/2)), toy_hyp (toks @ [3]) (sc + 2 * ln (1/2))]"
  using assms
  by (simp add: expand_all_def eos_phase_fields expand_beam_def eos_candidates
      toy_params_fields upt2 eos_extend0 eos_extend1)

lemma eos_beam_step:
  assumes "toks \<noteq> []"
  shows "beam_step toy_decoder eos_net no_collab toy_params None 0 elen t ([toy_hyp toks sc], ends)
    = Inr (if 2 \<le> length ends + 1
           then (([toy_hyp toks sc], take 2 (ends @ [toy_hyp (toks @ [2]) (sc + ln (1/2))])), True)
           else (([toy_hyp (toks @ [3]) (sc + 2 * ln (1/2))],
                  ends @ [toy_hyp (toks @ [2]) (sc + ln (1/2))]), False))"
  using assms lnh
  by (simp add: beam_step_def eos_score_phase eos_expand_all toy_params_fields
      sorted_by_score_def is_complete_def toy_hyp_fields toy_decoder_fields Let_def)

lemma eos_beam_loop:
  "beam_loop toy_decoder eos_net no_collab toy_params None 0 elen [0, 1] ([toy_hyp [2] 0], [])
    = Inr ([toy_hyp [2, 3] (2 * ln (1/2))],
           [toy_hyp [2, 2] (ln (1/2)), toy_hyp [2, 3, 2] (3 * ln (1/2))])"
  by (simp add: eos_beam_step)

lemma ens_collab_fields:
  "self_lm ens_collab = None" "lm ens_collab = None" "ctc_prefix_score ens_collab = None"
  "ensmbl_decs ens_collab = [(toy_decoder, eos_net)]"
  by (simp_all add: ens_collab_def no_collab_def)

lemma ens_init:
  "init_hyp toy_decoder toy_net ens_collab (Some (zero_state toy_decoder toy_net)) None
     = (toy_hyp [2] 0)\<lparr>ensmbl_dstate := [[(KStr ''dstate'', ([[0]], Some [[0]]))]],
                         ensmbl_cv := [[0]], ensmbl_aws := [[None]]\<rparr>"
  by (simp add: init_hyp_def toy_hyp_def ens_collab_fields toy_decoder_fields toy_net_fields
      eos_net_fields zero_state_def zero_dstate_def)

subsection \<open>Candidates and extensions\<close>

lemma candidates_Inr:
  assumes "candidates n c p beam r scores_attn aw = Inr cd"
  shows "\<exists>vals0 ids0 tsl cp0 pre.
      topk (recog_beam_width p)
        (map (\<lambda>s. (score_attn beam + s) * (1 - recog_ctc_weight p)) scores_attn)
        = Inr (vals0, ids0)
    \<and> lm_scores c p beam r ids0 = Inr tsl
    \<and> coverage_penalty p n beam aw = Inr cp0
    \<and> pre = map (\<lambda>v. if 0 < recog_coverage_penalty p
                        then v + cp0 * recog_coverage_penalty p else v)
               (add_length_penalty p beam
                  (if lm c \<noteq> None
                   then map2 (\<lambda>v s. v + s * recog_lm_weight p) vals0 tsl else vals0))
    \<and> (case ctc_prefix_score c of
          None \<Rightarrow> topk_ids cd = ids0 \<and> total_scores_topk cd = pre
        | Some f \<Rightarrow>
            (\<exists>joint.
               topk (recog_beam_width p)
                 (map2 (\<lambda>v s. v + s * recog_ctc_weight p) pre
                    (fst (f (hyp beam) ids0 (ctc_state beam))))
                 = Inr (total_scores_topk cd, joint)
             \<and> topk_ids cd = map ((!) ids0) joint))
    \<and> set (topk_ids cd) = set ids0
    \<and> distinct (topk_ids cd)
    \<and> length (topk_ids cd) = recog_beam_width p
    \<and> (\<forall>i\<in>set (topk_ids cd). \<forall>j<length scores_attn. j \<notin> set (topk_ids cd) \<longrightarrow>
          (score_attn beam + scores_attn ! j) * (1 - recog_ctc_weight p)
            \<le> (score_attn beam + scores_attn ! i) * (1 - recog_ctc_weight p))"
proof -
  let ?bw = "recog_beam_width p"
  let ?total = "map (\<lambda>s. (score_attn beam + s) * (1 - recog_ctc_weight p)) scores_attn"
  have tot: "map (\<lambda>s. s * (1 - recog_ctc_weight p)) (map (\<lambda>s. score_attn beam + s) scores_attn)
               = ?total" by simp
  from assms obtain vals0 ids0 where
    tk: "topk ?bw ?total = Inr (vals0, ids0)"
    unfolding candidates_def Let_def tot
    by (auto simp: bind_e_Inr_iff)
  from assms tk obtain tsl where tsl: "lm_scores c p beam r ids0 = Inr tsl"
    unfolding candidates_def Let_def tot
    by (auto simp: bind_e_Inr_iff)
  from assms tk tsl obtain cp0 where cp0: "coverage_penalty p n beam aw = Inr cp0"
    unfolding candidates_def Let_def tot
    by (auto simp: bind_e_Inr_iff)
  define pre where "pre = map (\<lambda>v. if 0 < recog_coverage_penalty p
                        then v + cp0 * recog_coverage_penalty p else v)
               (add_length_penalty p beam
                  (if lm c \<noteq> None
                   then map2 (\<lambda>v s. v + s * recog_lm_weight p) vals0 tsl else vals0))"
  have pre_alt: "(if 0 < recog_coverage_penalty p
          then map (\<lambda>v. v + cp0 * recog_coverage_penalty p)
                 (add_length_penalty p beam
                    (if lm c \<noteq> None
                     then map2 (\<lambda>v s. v + s * recog_lm_weight p) vals0 tsl else vals0))
          else add_length_penalty p beam
                    (if lm c \<noteq> None
                     then map2 (\<lambda>v s. v + s * recog_lm_weight p) vals0 tsl else vals0)) = pre"
    by (simp add: pre_def)
  note ids0 = topk_Inr [OF tk]
  have tail: "(case ctc_prefix_score c of
          None \<Rightarrow> topk_ids cd = ids0 \<and> total_scores_topk cd = pre
        | Some f \<Rightarrow>
            (\<exists>joint.
               topk ?bw
                 (map2 (\<lambda>v s. v + s * recog_ctc_weight p) pre
                    (fst (f (hyp beam) ids0 (ctc_state beam))))
                 = Inr (total_scores_topk cd, joint)
             \<and> topk_ids cd = map ((!) ids0) joint))"
    using assms tk tsl cp0
    unfolding candidates_def Let_def tot
    by (auto simp: bind_e_Inr_iff pre_alt split: option.splits prod.splits if_splits)
  have perm: "set (topk_ids cd) = set ids0 \<and> distinct (topk_ids cd)
      \<and> length (topk_ids cd) = ?bw"
  proof (cases "ctc_prefix_score c")
    case None
    with tail ids0 show ?thesis by simp
  next
    case (Some f)
    with tail obtain joint ys where
      j: "topk ?bw ys = Inr (total_scores_topk cd, joint)" and
      ys: "ys = map2 (\<lambda>v s. v + s * recog_ctc_weight p) pre
                    (fst (f (hyp beam) ids0 (ctc_state beam)))" and
      t: "topk_ids cd = map ((!) ids0) joint"
      by auto
    have "length tsl = ?bw" using tsl ids0(3) by (rule lm_scores_length)
    then have "length pre = ?bw"
      using ids0(4) by (simp add: pre_def)
    then have "length ys \<le> ?bw" by (simp add: ys)
    moreover note jt = topk_Inr [OF j]
    ultimately have lys: "length ys = ?bw" using jt(5) by simp
    from jt lys ids0(3) have
      jp: "distinct joint" "length joint = length ids0" "set joint \<subseteq> {0..<length ids0}"
      by simp_all
    have "set (map ((!) ids0) joint) = set ids0" using jp by (rule reindex_set)
    moreover have "distinct (map ((!) ids0) joint)"
      using jp(1) jp(3) ids0(6) by (rule reindex_distinct)
    ultimately show ?thesis using t jp(2) ids0(3) by simp
  qed
  have best: "\<forall>i\<in>set (topk_ids cd). \<forall>j<length scores_attn. j \<notin> set (topk_ids cd) \<longrightarrow>
          (score_attn beam + scores_attn ! j) * (1 - recog_ctc_weight p)
            \<le> (score_attn beam + scores_attn ! i) * (1 - recog_ctc_weight p)"
  proof (intro ballI allI impI)
    fix i j
    assume i: "i \<in> set (topk_ids cd)" and j: "j < length scores_attn"
      and nj: "j \<notin> set (topk_ids cd)"
    from i perm have i0: "i \<in> set ids0" by simp
    with ids0(7) have il: "i < length scores_attn" by auto
    from topk_largest [OF tk i0, of j] j nj perm have "?total ! j \<le> ?total ! i" by simp
    with il j show "(score_attn beam + scores_attn ! j) * (1 - recog_ctc_weight p)
            \<le> (score_attn beam + scores_attn ! i) * (1 - recog_ctc_weight p)" by simp
  qed
  from tk tsl cp0 pre_def tail perm best show ?thesis by blast
qed

lemma extend_hyp_Some:
  assumes "extend_hyp d p elen ph beam r scores_attn cd k = Inr (Some h)"
  shows "k < length (topk_ids cd)" and "hyp h = hyp beam @ [topk_ids cd ! k]"
    and "k < length (total_scores_topk cd)"
    and "score h = total_scores_topk cd ! k
           / (if recog_length_norm p then real (length (tl (hyp beam))) + 1 else 1)"
  using assms
  by (auto simp: extend_hyp_def getitem_def Let_def bind_e_Inr_iff split: if_splits)

lemma mapM_e_Inr_set:
  assumes "mapM_e f xs = Inr ys" and "y \<in> set ys"
  shows "\<exists>x\<in>set xs. f x = Inr y"
proof -
  from assms(2) obtain i where i: "i < length ys" "ys ! i = y"
    by (auto simp: in_set_conv_nth)
  with mapM_e_Inr_length [OF assms(1)] mapM_e_Inr_nth [OF assms(1), of i]
  show ?thesis by auto
qed

lemma concat_option_set:
  "h \<in> set (concat (map (\<lambda>opt. case opt of None \<Rightarrow> [] | Some h \<Rightarrow> [h]) os))
     \<longleftrightarrow> Some h \<in> set os"
  by (induction os) (auto split: option.splits)

lemma expand_beam_Inr:
  assumes "expand_beam d n c p elen ph (beam, r, scores_attn) = Inr new_hyps"
  shows "\<exists>cd. candidates n c p beam r scores_attn (map o_aw (ph_rows ph)) = Inr cd
           \<and> (\<forall>h\<in>set new_hyps. \<exists>k<recog_beam_width p.
                 extend_hyp d p elen ph beam r scores_attn cd k = Inr (Some h))"
proof -
  from assms obtain cd os where
    cd: "candidates n c p beam r scores_attn (map o_aw (ph_rows ph)) = Inr cd" and
    os: "mapM_e (extend_hyp d p elen ph beam r scores_attn cd) [0..<recog_beam_width p] = Inr os"
    and nh: "new_hyps = concat (map (\<lambda>opt. case opt of None \<Rightarrow> [] | Some h \<Rightarrow> [h]) os)"
    by (auto simp: expand_beam_def bind_e_Inr_iff)
  have "\<exists>k<recog_beam_width p. extend_hyp d p elen ph beam r scores_attn cd k = Inr (Some h)"
    if "h \<in> set new_hyps" for h
  proof -
    from that nh have "Some h \<in> set os" by (simp add: concat_option_set)
    from mapM_e_Inr_set [OF os this] show ?thesis by auto
  qed
  with cd show ?thesis by blast
qed

subsection \<open>The maximum over the entries other than the end symbol\<close>

lemma tensor_max_Max:
  assumes "xs \<noteq> []"
  shows "tensor_max xs = Inr (Max (set xs))"
proof (cases xs)
  case Nil
  with assms show ?thesis by simp
next
  case (Cons y ys)
  have "fold max ys y = Max (set (y # ys))" by (simp only: Max.set_eq_fold)
  with Cons show ?thesis by (simp add: tensor_max_def)
qed

lemma set_take_nth:
  assumes "e \<le> length xs"
  shows "set (take e xs) = {xs ! i |i. i < e}"
proof -
  have "set (take e xs) = {take e xs ! i |i. i < e}"
    using assms by (simp add: set_conv_nth min_def)
  also have "\<dots> = {xs ! i |i. i < e}"
    by (intro Collect_cong) (metis nth_take)
  finally show ?thesis .
qed

lemma set_drop_nth: "set (drop e xs) = {xs ! i |i. e \<le> i \<and> i < length xs}"
proof -
  have "set (drop e xs) = {drop e xs ! i |i. i < length xs - e}"
    by (simp add: set_conv_nth)
  also have "\<dots> = {xs ! (e + i) |i. i < length xs - e}"
    by (intro Collect_cong) (auto simp: )
  also have "\<dots> = {xs ! i |i. e \<le> i \<and> i < length xs}"
  proof (intro set_eqI iffI; clarsimp)
    fix i assume "i < length xs - e"
    then show "\<exists>j. xs ! (e + i) = xs ! j \<and> e \<le> j \<and> j < length xs"
      by (intro exI [of _ "e + i"]) auto
  next
    fix i assume "e \<le> i" "i < length xs"
    then show "\<exists>j. xs ! i = xs ! (e + j) \<and> j < length xs - e"
      by (intro exI [of _ "i - e"]) auto
  qed
  finally show ?thesis .
qed

lemma max_no_eos:
  assumes "0 < e" and "e + 1 < length xs"
  shows "max (Max (set (take e xs))) (Max (set (drop (e + 1) xs)))
           = Max {xs ! i |i. i < length xs \<and> i \<noteq> e}"
proof -
  have ne: "take e xs \<noteq> []" "drop (e + 1) xs \<noteq> []" using assms by auto
  have t: "set (take e xs) = {xs ! i |i. i < e}"
    using assms by (intro set_take_nth) simp
  have "set (take e xs) \<union> set (drop (e + 1) xs) = {xs ! i |i. i < length xs \<and> i \<noteq> e}"
    unfolding t set_drop_nth
  proof (intro set_eqI iffI)
    fix v assume "v \<in> {xs ! i |i. i < e} \<union> {xs ! i |i. e + 1 \<le> i \<and> i < length xs}"
    then obtain i where "v = xs ! i" "i < e \<or> (e + 1 \<le> i \<and> i < length xs)" by blast
    with assms have "v = xs ! i \<and> i < length xs \<and> i \<noteq> e" by auto
    then show "v \<in> {xs ! i |i. i < length xs \<and> i \<noteq> e}" by blast
  next
    fix v assume "v \<in> {xs ! i |i. i < length xs \<and> i \<noteq> e}"
    then obtain i where "v = xs ! i" "i < length xs" "i \<noteq> e" by blast
    then have "v = xs ! i \<and> (i < e \<or> (e + 1 \<le> i \<and> i < length xs))" by auto
    then show "v \<in> {xs ! i |i. i < e} \<union> {xs ! i |i. e + 1 \<le> i \<and> i < length xs}"
      by blast
  qed
  moreover have "Max (set (take e xs) \<union> set (drop (e + 1) xs))
      = max (Max (set (take e xs))) (Max (set (drop (e + 1) xs)))"
    using ne by (intro Max_Un) simp_all
  ultimately show ?thesis by simp
qed

lemma eos_rejected_chunk_eq:
  assumes "0 < eos d" and "eos d + 1 < length scores_attn"
  shows "eos_rejected_chunk d p scores_attn
     = Inr (scores_attn ! eos d
             \<le> recog_eos_threshold p
                 * Max {scores_attn ! i |i. i < length scores_attn \<and> i \<noteq> eos d})"
proof -
  have ne: "take (eos d) scores_attn \<noteq> []" "drop (eos d + 1) scores_attn \<noteq> []"
    using assms by auto
  show ?thesis
    using assms
    by (simp add: eos_rejected_chunk_def tensor_max_Max [OF ne(1)] tensor_max_Max [OF ne(2)]
        getitem_def max_no_eos del: One_nat_def)
qed

lemma eos_rejected_eq:
  assumes "0 < eos d" and "eos d + 1 < length scores_attn"
  shows "eos_rejected d p elen beam scores_attn
     = Inr (real_of_int (int (length (hyp beam)) - 1) < real elen * recog_min_len_ratio p
            \<or> scores_attn ! eos d
             \<le> recog_eos_threshold p
                 * Max {scores_attn ! i |i. i < length scores_attn \<and> i \<noteq> eos d})"
proof -
  have ne: "take (eos d) scores_attn \<noteq> []" "drop (eos d + 1) scores_attn \<noteq> []"
    using assms by auto
  show ?thesis
    using assms
    by (simp add: eos_rejected_def tensor_max_Max [OF ne(1)] tensor_max_Max [OF ne(2)]
        getitem_def max_no_eos del: One_nat_def)
qed

subsection \<open>One step and a run of the whole-utterance search\<close>

lemma expand_all_Inr:
  assumes "expand_all d n c p elen ph hyps = Inr new_hyps" and "h \<in> set new_hyps"
  shows "\<exists>beam\<in>set hyps. \<exists>idx. hyp h = hyp beam @ [idx]"
proof -
  from assms(1) obtain hss where
    hss: "mapM_e (expand_beam d n c p elen ph)
            (zip hyps (zip (ph_rows ph) (ph_scores_attn ph))) = Inr hss"
    and nh: "new_hyps = concat hss"
    by (auto simp: expand_all_def bind_e_Inr_iff)
  from assms(2) nh obtain hs where hs: "hs \<in> set hss" "h \<in> set hs" by auto
  from mapM_e_Inr_set [OF hss hs(1)] obtain x where
    x: "x \<in> set (zip hyps (zip (ph_rows ph) (ph_scores_attn ph)))"
       "expand_beam d n c p elen ph x = Inr hs" by blast
  obtain beam r row where xe: "x = (beam, r, row)" by (cases x) auto
  with x(1) have b: "beam \<in> set hyps" by (auto dest: set_zip_leftD)
  from expand_beam_Inr [OF x(2) [unfolded xe]] hs(2) obtain cd k where
    "extend_hyp d p elen ph beam r row cd k = Inr (Some h)" by blast
  from extend_hyp_Some(2) [OF this] b show ?thesis by blast
qed

lemma beam_step_Inr:
  assumes "beam_step d n c p refs_id b elen t (hyps, end_hyps) = Inr ((hyps1, end_hyps1), brk)"
  shows "\<exists>ph new_hyps refs_b.
           expand_all d n c p elen ph hyps = Inr new_hyps
         \<and> (\<not> recog_oracle p \<longrightarrow> refs_b = [])
         \<and> (let new_hyps_sorted = take (recog_beam_width p) (sorted_by_score new_hyps);
                 end1 = end_hyps @ filter (is_complete d p refs_b t) new_hyps_sorted;
                 live = filter (\<lambda>h. \<not> is_complete d p refs_b t h) new_hyps_sorted
             in (brk \<longleftrightarrow> recog_beam_width p \<le> length end1)
              \<and> hyps1 = (if brk then hyps else live)
              \<and> end_hyps1 = (if brk then take (recog_beam_width p) end1 else end1))"
  using assms
  by (auto simp: beam_step_def bind_e_Inr_iff Let_def split: if_splits)

lemma sorted_by_score_set [simp]: "set (sorted_by_score hs) = set hs"
  by (simp add: sorted_by_score_def)

lemma sorted_by_score_length [simp]: "length (sorted_by_score hs) = length hs"
  by (simp add: sorted_by_score_def)

lemma beam_step_facts:
  assumes "beam_step d n c p refs_id b elen t (hyps, end_hyps) = Inr ((hyps1, end_hyps1), brk)"
  shows "\<exists>completed.
           end_hyps1 = (if brk then take (recog_beam_width p) (end_hyps @ completed)
                        else end_hyps @ completed)
         \<and> (brk \<longleftrightarrow> recog_beam_width p \<le> length (end_hyps @ completed))
         \<and> (\<forall>h\<in>set completed. \<exists>beam\<in>set hyps. \<exists>idx. hyp h = hyp beam @ [idx])
         \<and> (\<not> recog_oracle p \<longrightarrow>
               (\<forall>h\<in>set completed. 1 < length (hyp h) \<and> last (hyp h) = eos d))"
    and "brk \<Longrightarrow> hyps1 = hyps"
    and "\<not> brk \<Longrightarrow> length hyps1 \<le> recog_beam_width p"
    and "\<not> brk \<Longrightarrow> \<forall>h\<in>set hyps1. \<exists>beam\<in>set hyps. \<exists>idx. hyp h = hyp beam @ [idx]"
    and "\<not> brk \<Longrightarrow> \<not> recog_oracle p
           \<Longrightarrow> \<forall>h\<in>set hyps1. \<not> (1 < length (hyp h) \<and> last (hyp h) = eos d)"
proof -
  from beam_step_Inr [OF assms] obtain ph new_hyps refs_b where
    ex: "expand_all d n c p elen ph hyps = Inr new_hyps" and
    rb: "\<not> recog_oracle p \<longrightarrow> refs_b = []" and
    br: "brk \<longleftrightarrow> recog_beam_width p
            \<le> length (end_hyps @ filter (is_complete d p refs_b t)
                          (take (recog_beam_width p) (sorted_by_score new_hyps)))" and
    h1: "hyps1 = (if brk then hyps
                  else filter (\<lambda>h. \<not> is_complete d p refs_b t h)
                         (take (recog_beam_width p) (sorted_by_score new_hyps)))" and
    e1: "end_hyps1 = (if brk
            then take (recog_beam_width p)
                   (end_hyps @ filter (is_complete d p refs_b t)
                      (take (recog_beam_width p) (sorted_by_score new_hyps)))
            else end_hyps @ filter (is_complete d p refs_b t)
                      (take (recog_beam_width p) (sorted_by_score new_hyps)))"
    unfolding Let_def by blast
  let ?sorted = "take (recog_beam_width p) (sorted_by_score new_hyps)"
  have sub: "set ?sorted \<subseteq> set new_hyps"
    using set_take_subset [of "recog_beam_width p" "sorted_by_score new_hyps"] by simp
  have par: "\<exists>beam\<in>set hyps. \<exists>idx. hyp h = hyp beam @ [idx]" if "h \<in> set ?sorted" for h
    using that sub expand_all_Inr [OF ex] by blast
  show "\<exists>completed.
           end_hyps1 = (if brk then take (recog_beam_width p) (end_hyps @ completed)
                        else end_hyps @ completed)
         \<and> (brk \<longleftrightarrow> recog_beam_width p \<le> length (end_hyps @ completed))
         \<and> (\<forall>h\<in>set completed. \<exists>beam\<in>set hyps. \<exists>idx. hyp h = hyp beam @ [idx])
         \<and> (\<not> recog_oracle p \<longrightarrow>
               (\<forall>h\<in>set completed. 1 < length (hyp h) \<and> last (hyp h) = eos d))"
  proof (intro exI [of _ "filter (is_complete d p refs_b t) ?sorted"] conjI)
    show "end_hyps1 = (if brk
            then take (recog_beam_width p)
                   (end_hyps @ filter (is_complete d p refs_b t) ?sorted)
            else end_hyps @ filter (is_complete d p refs_b t) ?sorted)" by (rule e1)
    show "brk \<longleftrightarrow> recog_beam_width p
            \<le> length (end_hyps @ filter (is_complete d p refs_b t) ?sorted)" by (rule br)
    show "\<forall>h\<in>set (filter (is_complete d p refs_b t) ?sorted).
            \<exists>beam\<in>set hyps. \<exists>idx. hyp h = hyp beam @ [idx]"
      using par by simp
    show "\<not> recog_oracle p \<longrightarrow>
            (\<forall>h\<in>set (filter (is_complete d p refs_b t) ?sorted).
               1 < length (hyp h) \<and> last (hyp h) = eos d)"
      by (simp add: is_complete_def)
  qed
  show "hyps1 = hyps" if brk using that h1 by simp
  show "length hyps1 \<le> recog_beam_width p" if "\<not> brk"
  proof -
    have "length hyps1 \<le> length ?sorted"
      unfolding h1 using that by (simp only: if_False length_filter_le)
    also have "\<dots> \<le> recog_beam_width p" by simp
    finally show ?thesis .
  qed
  show "\<forall>h\<in>set hyps1. \<exists>beam\<in>set hyps. \<exists>idx. hyp h = hyp beam @ [idx]" if "\<not> brk"
    using that h1 par by simp
  show "\<forall>h\<in>set hyps1. \<not> (1 < length (hyp h) \<and> last (hyp h) = eos d)"
    if "\<not> brk" "\<not> recog_oracle p"
    using that h1 by (simp add: is_complete_def)
qed

lemma extension_forms:
  assumes "hyp beam = e # toks" and "e \<notin> set toks" and "hyp h = hyp beam @ [idx]"
  shows "1 < length (hyp h) \<and> last (hyp h) = e \<Longrightarrow> hyp h = e # toks @ [e]"
    and "\<not> (1 < length (hyp h) \<and> last (hyp h) = e)
           \<Longrightarrow> hyp h = e # (toks @ [idx]) \<and> e \<notin> set (toks @ [idx])"
  using assms by auto

lemma beam_step_inv:
  assumes step: "beam_step d n c p refs_id b elen t (hyps, end_hyps)
                   = Inr ((hyps1, end_hyps1), brk)"
    and no: "\<not> recog_oracle p"
    and L: "\<forall>h\<in>set hyps. \<exists>toks. hyp h = eos d # toks \<and> eos d \<notin> set toks"
    and D: "\<forall>h\<in>set end_hyps. \<exists>toks. hyp h = eos d # toks @ [eos d] \<and> eos d \<notin> set toks"
    and lh: "length hyps \<le> recog_beam_width p"
    and le: "length end_hyps \<le> recog_beam_width p"
  shows "(\<forall>h\<in>set hyps1. \<exists>toks. hyp h = eos d # toks \<and> eos d \<notin> set toks)
       \<and> (\<forall>h\<in>set end_hyps1. \<exists>toks. hyp h = eos d # toks @ [eos d] \<and> eos d \<notin> set toks)
       \<and> length hyps1 \<le> recog_beam_width p
       \<and> length end_hyps1 \<le> recog_beam_width p"
proof -
  note f = beam_step_facts [OF step]
  from f(1) no obtain completed where
    e1: "end_hyps1 = (if brk then take (recog_beam_width p) (end_hyps @ completed)
                        else end_hyps @ completed)" and
    br: "brk \<longleftrightarrow> recog_beam_width p \<le> length (end_hyps @ completed)" and
    cp: "\<forall>h\<in>set completed. \<exists>beam\<in>set hyps. \<exists>idx. hyp h = hyp beam @ [idx]" and
    ce: "\<forall>h\<in>set completed. 1 < length (hyp h) \<and> last (hyp h) = eos d"
    by blast
  have live: "\<forall>h\<in>set hyps1. \<exists>toks. hyp h = eos d # toks \<and> eos d \<notin> set toks"
  proof (cases brk)
    case True
    with f(2) L show ?thesis by simp
  next
    case False
    show ?thesis
    proof
      fix h assume h: "h \<in> set hyps1"
      from f(4) [OF False] h obtain beam idx where
        b: "beam \<in> set hyps" "hyp h = hyp beam @ [idx]" by blast
      from L b(1) obtain toks where t: "hyp beam = eos d # toks" "eos d \<notin> set toks" by blast
      from f(5) [OF False no] h have "\<not> (1 < length (hyp h) \<and> last (hyp h) = eos d)" by blast
      from extension_forms(2) [OF t b(2) this]
      show "\<exists>toks. hyp h = eos d # toks \<and> eos d \<notin> set toks" by blast
    qed
  qed
  have cform: "\<exists>toks. hyp h = eos d # toks @ [eos d] \<and> eos d \<notin> set toks"
    if "h \<in> set completed" for h
  proof -
    from cp that obtain beam idx where
      b: "beam \<in> set hyps" "hyp h = hyp beam @ [idx]" by blast
    from L b(1) obtain toks where t: "hyp beam = eos d # toks" "eos d \<notin> set toks" by blast
    from ce that have "1 < length (hyp h) \<and> last (hyp h) = eos d" by blast
    from extension_forms(1) [OF t b(2) this] t(2) show ?thesis by blast
  qed
  have "\<forall>h\<in>set (end_hyps @ completed).
          \<exists>toks. hyp h = eos d # toks @ [eos d] \<and> eos d \<notin> set toks"
    using D cform by auto
  moreover have "set end_hyps1 \<subseteq> set (end_hyps @ completed)"
    unfolding e1 using set_take_subset [of "recog_beam_width p" "end_hyps @ completed"]
    by (cases brk) simp_all
  ultimately have dn: "\<forall>h\<in>set end_hyps1.
          \<exists>toks. hyp h = eos d # toks @ [eos d] \<and> eos d \<notin> set toks"
    by blast
  have l1: "length hyps1 \<le> recog_beam_width p"
    using f(2) f(3) lh by (cases brk) simp_all
  have l2: "length end_hyps1 \<le> recog_beam_width p"
    using e1 br by (cases brk) simp_all
  from live dn l1 l2 show ?thesis by blast
qed

lemma beam_loop_inv:
  assumes "beam_loop d n c p refs_id b elen ts (hyps, end_hyps) = Inr (hyps1, end_hyps1)"
    and "\<not> recog_oracle p"
    and "\<forall>h\<in>set hyps. \<exists>toks. hyp h = eos d # toks \<and> eos d \<notin> set toks"
    and "\<forall>h\<in>set end_hyps. \<exists>toks. hyp h = eos d # toks @ [eos d] \<and> eos d \<notin> set toks"
    and "length hyps \<le> recog_beam_width p"
    and "length end_hyps \<le> recog_beam_width p"
  shows "(\<forall>h\<in>set hyps1. \<exists>toks. hyp h = eos d # toks \<and> eos d \<notin> set toks)
       \<and> (\<forall>h\<in>set end_hyps1. \<exists>toks. hyp h = eos d # toks @ [eos d] \<and> eos d \<notin> set toks)
       \<and> length hyps1 \<le> recog_beam_width p
       \<and> length end_hyps1 \<le> recog_beam_width p"
  using assms
proof (induction ts arbitrary: hyps end_hyps)
  case Nil
  then show ?case by simp
next
  case (Cons t ts)
  from Cons.prems(1) obtain hyps2 end_hyps2 brk where
    step: "beam_step d n c p refs_id b elen t (hyps, end_hyps) = Inr ((hyps2, end_hyps2), brk)"
    and rest: "if brk then (hyps1, end_hyps1) = (hyps2, end_hyps2)
               else beam_loop d n c p refs_id b elen ts (hyps2, end_hyps2)
                      = Inr (hyps1, end_hyps1)"
    by (auto split: sum.splits if_splits)
  note inv = beam_step_inv [OF step Cons.prems(2-6)]
  show ?case
  proof (cases brk)
    case True
    with rest inv show ?thesis by simp
  next
    case False
    with rest have "beam_loop d n c p refs_id b elen ts (hyps2, end_hyps2)
                      = Inr (hyps1, end_hyps1)" by simp
    from Cons.IH [OF this Cons.prems(2)] inv show ?thesis by blast
  qed
qed

lemma no_extension_of_completed:
  assumes "hyp e = y # toks @ [y]" and "y \<notin> set toks"
    and "hyp h = y # toks1 \<and> y \<notin> set toks1 \<or> hyp h = y # toks1 @ [y] \<and> y \<notin> set toks1"
  shows "\<not> (\<exists>ys. ys \<noteq> [] \<and> hyp h = hyp e @ ys)"
proof
  assume "\<exists>ys. ys \<noteq> [] \<and> hyp h = hyp e @ ys"
  then obtain ys where ys: "ys \<noteq> []" "hyp h = y # toks @ [y] @ ys"
    using assms(1) by auto
  from assms(3) show False
  proof
    assume "hyp h = y # toks1 \<and> y \<notin> set toks1"
    with ys(2) show False by auto
  next
    assume a: "hyp h = y # toks1 @ [y] \<and> y \<notin> set toks1"
    with ys(2) have "toks1 @ [y] = toks @ [y] @ ys" by simp
    then have "toks1 @ [y] = (toks @ [y] @ butlast ys) @ [last ys]"
      using ys(1) by simp
    then have "toks1 = toks @ [y] @ butlast ys" by (metis append1_eq_conv)
    with a show False by simp
  qed
qed

subsection \<open>The ensemble path\<close>

lemma mapM_e_all_Inl:
  assumes "xs \<noteq> []" and "\<forall>x\<in>set xs. \<exists>e. f x = Inl e"
  shows "\<exists>e. mapM_e f xs = Inl e"
  using assms by (cases xs) (auto split: sum.splits)

lemma bind_e_Inl_iff:
  "(\<exists>e. bind_e m f = Inl e) \<longleftrightarrow> (\<exists>e. m = Inl e) \<or> (\<exists>x. m = Inr x \<and> (\<exists>e. f x = Inl e))"
  by (cases m) (simp_all add: bind_e_def)

lemma bind_e_always_Inl:
  assumes "\<And>x. \<exists>e. f x = Inl e"
  shows "\<exists>e. bind_e m f = Inl e"
  using assms by (cases m) simp_all

lemma subscript_then_fail:
  "\<exists>e. bind_e (subscript x k) (\<lambda>v. (Inl TypeError :: error + 'b)) = Inl e"
  by (cases "subscript x k") simp_all

lemma ensemble_states_fails:
  assumes "hyps \<noteq> []"
  shows "\<exists>e. ensemble_states d t i_e hyps = Inl e"
proof -
  have "\<exists>e. (case rnn_type d of
               LSTM \<Rightarrow> mapM_e (\<lambda>beam. bind_e (subscript (dstates beam) (KInt i_e))
                                  (\<lambda>v. (Inl TypeError :: error + tensor list option))) hyps
             | GRU \<Rightarrow> Inl UnboundLocalError) = Inl e"
  proof (cases "rnn_type d")
    case LSTM
    have "\<forall>beam\<in>set hyps. \<exists>e. bind_e (subscript (dstates beam) (KInt i_e))
                                  (\<lambda>v. (Inl TypeError :: error + tensor list option)) = Inl e"
      using subscript_then_fail by blast
    from mapM_e_all_Inl [OF assms this] LSTM show ?thesis by simp
  next
    case GRU
    then show ?thesis by simp
  qed
  then obtain e where e: "(case rnn_type d of
               LSTM \<Rightarrow> mapM_e (\<lambda>beam. bind_e (subscript (dstates beam) (KInt i_e))
                                  (\<lambda>v. (Inl TypeError :: error + tensor list option))) hyps
             | GRU \<Rightarrow> Inl UnboundLocalError) = Inl e" by blast
  show ?thesis
    unfolding ensemble_states_def e
    by (rule bind_e_always_Inl, rule bind_e_always_Inl, rule bind_e_always_Inl) simp
qed

lemma main_phase_nonempty:
  "main_phase d n c p refs_id b t hyps = Inr rows \<Longrightarrow> hyps \<noteq> []"
  by (auto simp: main_phase_def bind_e_Inr_iff split: if_splits)

lemma score_phase_ensemble_fails:
  assumes "ensmbl_decs c \<noteq> []"
  shows "\<exists>e. score_phase d n c p refs_id b t hyps = Inl e"
proof (cases "main_phase d n c p refs_id b t hyps")
  case (Inl e)
  then show ?thesis by (simp add: score_phase_def Let_def)
next
  case (Inr rows)
  then have ne: "hyps \<noteq> []" by (rule main_phase_nonempty)
  obtain dn rest where decs: "ensmbl_decs c = dn # rest" using assms by (cases "ensmbl_decs c") auto
  obtain dec ne' where dn: "dn = (dec, ne')" by (cases dn) auto
  from ensemble_states_fails [OF ne] obtain e where
    "ensemble_states d t 0 hyps = Inl e" by blast
  then have "ensemble_model d t hyps rows (0, dec, ne') = Inl e"
    by (simp add: ensemble_model_def)
  then have "mapM_e (ensemble_model d t hyps rows)
               (zip [0..<length (ensmbl_decs c)] (ensmbl_decs c)) = Inl e"
    by (simp add: decs dn upt_rec)
  with Inr show ?thesis by (simp add: score_phase_def Let_def decs)
qed


section \<open>Properties of the recurrent state cell\<close>

lemma recurrency_loop_append:
  "recurrency_loop d hxs cxs (ls @ ms) s =
     (case recurrency_loop d hxs cxs ls s of
        Inl e \<Rightarrow> Inl e
      | Inr s' \<Rightarrow> recurrency_loop d hxs cxs ms s')"
  by (induction ls arbitrary: s) (auto split: sum.splits)

lemma recurrency_layer_fields:
  assumes "recurrency_layer d hxs cxs l s = Inr s'"
  shows "\<exists>h. r_new_hxs s' = r_new_hxs s @ [h]
           \<and> r_dout s' = (if 0 < n_projs d then map tanh (proj d l (dropout d h)) else dropout d h)
           \<and> r_dout_score s' = (if l = 0 then Some (r_dout s') else r_dout_score s)"
  using assms
  by (auto simp: recurrency_layer_def Let_def split: sum.splits prod.splits)

lemma recurrency_loop_invariant:
  assumes "recurrency_loop d hxs cxs [0..<k] s0 = Inr s" and "r_new_hxs s0 = []" and "0 < k"
  shows "length (r_new_hxs s) = k
       \<and> r_dout s = (if 0 < n_projs d
                      then map tanh (proj d (k - 1) (dropout d (last (r_new_hxs s))))
                      else dropout d (last (r_new_hxs s)))
       \<and> r_dout_score s = Some (if 0 < n_projs d
                      then map tanh (proj d 0 (dropout d (r_new_hxs s ! 0)))
                      else dropout d (r_new_hxs s ! 0))"
  using assms
proof (induction k arbitrary: s)
  case 0
  then show ?case by simp
next
  case (Suc k)
  from Suc.prems(1) obtain s1 where
    s1: "recurrency_loop d hxs cxs [0..<k] s0 = Inr s1" and
    step: "recurrency_layer d hxs cxs k s1 = Inr s"
    by (auto simp: recurrency_loop_append split: sum.splits)
  from recurrency_layer_fields [OF step] obtain h where
    h: "r_new_hxs s = r_new_hxs s1 @ [h]"
       "r_dout s = (if 0 < n_projs d then map tanh (proj d k (dropout d h)) else dropout d h)"
       "r_dout_score s = (if k = 0 then Some (r_dout s) else r_dout_score s1)"
    by blast
  show ?case
  proof (cases "k = 0")
    case True
    with s1 Suc.prems(2) have "r_new_hxs s1 = []" by simp
    with h True show ?thesis by simp
  next
    case False
    with Suc.IH [OF s1 Suc.prems(2)] have
      ih: "length (r_new_hxs s1) = k"
          "r_dout_score s1 = Some (if 0 < n_projs d
                      then map tanh (proj d 0 (dropout d (r_new_hxs s1 ! 0)))
                      else dropout d (r_new_hxs s1 ! 0))"
      by simp_all
    from ih(1) False have "(r_new_hxs s1 @ [h]) ! 0 = r_new_hxs s1 ! 0"
      by (simp add: nth_append)
    with h ih False show ?thesis by simp
  qed
qed

lemma cell_decoder_recurrency:
  "recurrency cell_decoder [0] ([[0]], Some [[0]])
     = Inr \<lparr>dout_score = Some [tanh 1], dout_gen = [tanh 1], dstate = ([[0]], Some [[0]])\<rparr>"
  by (simp add: recurrency_def recurrency_layer_def rnn_cell_def getitem_def cell_decoder_def
      Let_def)

text \<open>
  Claim C4, as the code has it. When \<^verbatim>\<open>recurrency\<close> returns, the score view
  \<^verbatim>\<open>dout_score\<close> is the first layer's output after dropout and, when a projection is
  configured (\<^verbatim>\<open>n_projs > 0\<close>), after the projection and \<^verbatim>\<open>tanh\<close> as well; it is the
  pre-projection output only when no projection is configured. The generation view
  \<^verbatim>\<open>dout_gen\<close> is the last layer's output after dropout and, when configured, the
  projection and \<^verbatim>\<open>tanh\<close>.
\<close>

theorem recurrency_views:
  assumes "recurrency d inputs ds = Inr r"
  shows "length (fst (dstate r)) = n_layers d
       \<and> dout_score r = Some (if 0 < n_projs d
                      then map tanh (proj d 0 (dropout d (fst (dstate r) ! 0)))
                      else dropout d (fst (dstate r) ! 0))
       \<and> dout_gen r = (if 0 < n_projs d
                      then map tanh (proj d (n_layers d - 1) (dropout d (last (fst (dstate r)))))
                      else dropout d (last (fst (dstate r))))"
proof -
  let ?s0 = "\<lparr>r_dout = inputs, r_new_hxs = [], r_new_cxs = [], r_dout_score = None\<rparr>"
  from assms obtain s where
    s: "recurrency_loop d (fst ds) (snd ds) [0..<n_layers d] ?s0 = Inr s" and
    ne: "r_new_hxs s \<noteq> []" and
    r: "r = \<lparr>dout_score = r_dout_score s, dout_gen = r_dout s,
             dstate = (r_new_hxs s, Some (r_new_cxs s))\<rparr>"
    by (auto simp: recurrency_def split: sum.splits if_splits)
  have "0 < n_layers d"
  proof (rule ccontr)
    assume "\<not> 0 < n_layers d"
    with s have "s = ?s0" by simp
    with ne show False by simp
  qed
  from recurrency_loop_invariant [OF s _ this] r show ?thesis by simp
qed

theorem recurrency_views_witness:
  "recurrency cell_decoder [0] ([[0]], Some [[0]])
     = Inr \<lparr>dout_score = Some [tanh 1], dout_gen = [tanh 1], dstate = ([[0]], Some [[0]])\<rparr>
   \<and> length (fst (dstate \<lparr>dout_score = Some [tanh 1], dout_gen = [tanh 1],
                           dstate = ([[0]], Some [[0]])\<rparr>)) = n_layers cell_decoder"
proof -
  note e = cell_decoder_recurrency
  from recurrency_views [OF e] e show ?thesis by simp
qed

text \<open>
  Claim C4 as stated fails: with a projection configured the score view is not the
  first layer's post-dropout, pre-projection output. On \<open>cell_decoder\<close> the first
  layer's output after dropout is \<open>[0]\<close>, and the score view is \<open>[tanh 1]\<close>.
\<close>

theorem recurrency_score_view_counterexample:
  "\<not> (\<forall>r. recurrency cell_decoder [0] ([[0]], Some [[0]]) = Inr r
          \<longrightarrow> dout_score r = Some (dropout cell_decoder (fst (dstate r) ! 0)))"
proof
  assume a: "\<forall>r. recurrency cell_decoder [0] ([[0]], Some [[0]]) = Inr r
          \<longrightarrow> dout_score r = Some (dropout cell_decoder (fst (dstate r) ! 0))"
  note e = cell_decoder_recurrency
  from a e have "Some [tanh (1::real)] = Some (dropout cell_decoder [0])"
    by fastforce
  then show False by (simp add: cell_decoder_def)
qed

section \<open>Whole-utterance beam search: selection before fusion\<close>



section \<open>Whole-utterance beam search: edge cases\<close>

text \<open>
  Claim C3 says that whole-utterance beam search never fails on numeric edge cases and
  always returns \<^verbatim>\<open>nbest\<close> hypotheses per utterance. The code does not: on
  \<open>toy_decoder\<close> with beam width \<open>2\<close> and \<^verbatim>\<open>nbest = 2\<close> the end symbol is among the two
  candidates of every step and fails the end-symbol threshold, so one hypothesis stays
  live, the completed set is filled from that single hypothesis, and
  \<^verbatim>\<open>end_hyps[1]\<close> raises. With the end symbol at index \<open>0\<close> the maximum over the empty
  slice \<^verbatim>\<open>scores_attn[j, :0]\<close> raises.
\<close>

theorem beam_search_nbest_failure:
  "beam_search toy_decoder fresh_state toy_params 2 False None None [(1, toy_net, no_collab)]
     = (Inl IndexError, fresh_state)
   \<and> eos_rejected (toy_decoder\<lparr>eos := 0\<rparr>) toy_params 1 (toy_hyp [0] 0)
       [2 * ln (1/2), ln (1/2), 3 * ln (1/2), 3 * ln (1/2)] = Inl RuntimeError"
proof
  show "beam_search toy_decoder fresh_state toy_params 2 False None None
          [(1, toy_net, no_collab)] = (Inl IndexError, fresh_state)"
    by (rule toy_beam_search)
  show "eos_rejected (toy_decoder\<lparr>eos := 0\<rparr>) toy_params 1 (toy_hyp [0] 0)
       [2 * ln (1/2), ln (1/2), 3 * ln (1/2), 3 * ln (1/2)] = Inl RuntimeError"
    by (simp add: eos_rejected_def toy_params_fields toy_hyp_fields tensor_max_def)
qed

section \<open>Rejection of the end symbol\<close>

text \<open>
  Claim C5 as stated fails for the chunk-synchronous search, which has no test on the
  length: for the hypothesis that holds only the start symbol, a chunk of 4 frames and a
  minimum length ratio of \<open>1/2\<close>, the whole-utterance test rejects the end symbol and
  the chunk-synchronous test accepts it.
\<close>

theorem eos_short_chunk_counterexample:
  "real_of_int (int (length (hyp (toy_hyp [2] 0))) - 1) < real 4 * recog_min_len_ratio short_params
   \<and> eos_rejected toy_decoder short_params 4 (toy_hyp [2] 0)
        [3 * ln (1/2), 3 * ln (1/2), ln (1/2), 2 * ln (1/2)] = Inr True
   \<and> eos_rejected_chunk toy_decoder short_params
        [3 * ln (1/2), 3 * ln (1/2), ln (1/2), 2 * ln (1/2)] = Inr False"
  using lnh
  by (simp add: eos_rejected_def eos_rejected_chunk_def short_params_fields toy_hyp_fields
      toy_decoder_fields tensor_max_def getitem_def max_def)

text \<open>
  Claim C5, as the code has it. Let the end symbol have vocabulary entries on both sides,
  and let candidate \<open>k\<close> be the end symbol. The whole-utterance search rejects the
  extension (\<^verbatim>\<open>continue\<close>) exactly when the length of the hypothesis without the start
  symbol is below \<^verbatim>\<open>min_len_ratio\<close> times the encoder length, or the log-probability of
  the end symbol in \<open>scores_attn\<close> is at most \<^verbatim>\<open>eos_threshold\<close> times the maximum over the
  other entries. The chunk-synchronous search rejects it exactly when the second condition
  holds.
\<close>

theorem eos_rejection_rule:
  assumes "0 < eos d" and "eos d + 1 < length scores_attn"
    and "k < length (topk_ids cd)" and "k < length (total_scores_topk cd)"
    and "topk_ids cd ! k = eos d"
  shows "(extend_hyp d p elen ph beam r scores_attn cd k = Inr None
           \<longleftrightarrow> real_of_int (int (length (hyp beam)) - 1) < real elen * recog_min_len_ratio p
               \<or> scores_attn ! eos d
                    \<le> recog_eos_threshold p
                        * Max {scores_attn ! i |i. i < length scores_attn \<and> i \<noteq> eos d})
       \<and> (extend_chunk d p beam r scores_attn cd k = Inr None
           \<longleftrightarrow> scores_attn ! eos d
                    \<le> recog_eos_threshold p
                        * Max {scores_attn ! i |i. i < length scores_attn \<and> i \<noteq> eos d})"
  using assms
  by (simp add: extend_hyp_def extend_chunk_def getitem_def Let_def
      eos_rejected_eq eos_rejected_chunk_eq bind_e_Inr_iff del: One_nat_def)


theorem eos_rejection_rule_witness:
  "0 < eos toy_decoder
   \<and> eos toy_decoder + 1 < length [3 * ln (1/2), 3 * ln (1/2), 2 * ln (1/2), ln (1 / 2)]
   \<and> (extend_hyp toy_decoder toy_params 1 (toy_phase 2) (toy_hyp [2] 0) (toy_row 2)
        [3 * ln (1/2), 3 * ln (1/2), 2 * ln (1/2), ln (1 / 2)]
        \<lparr>topk_ids = [3, 2], total_scores_topk = [ln (1/2), 2 * ln (1/2)],
           total_scores_attn = [3 * ln (1/2), 3 * ln (1/2), 2 * ln (1/2), ln (1/2)],
           total_scores_lm = [0, 0], total_scores_ctc = [0, 0], cp = 0, ctc_states = [],
           joint_ids_topk = None\<rparr> 1 = Inr None)"
proof -
  let ?row = "[3 * ln (1/2), 3 * ln (1/2), 2 * ln (1/2), ln (1 / 2 :: real)]"
  let ?cd = "\<lparr>topk_ids = [3, 2], total_scores_topk = [ln (1/2), 2 * ln (1/2)],
           total_scores_attn = [3 * ln (1/2), 3 * ln (1/2), 2 * ln (1/2), ln (1/2)],
           total_scores_lm = [0, 0], total_scores_ctc = [0, 0], cp = 0, ctc_states = [],
           joint_ids_topk = None\<rparr>"
  have h: "0 < eos toy_decoder" "eos toy_decoder + 1 < length ?row"
    "1 < length (topk_ids ?cd)" "1 < length (total_scores_topk ?cd)"
    "topk_ids ?cd ! 1 = eos toy_decoder"
    by (simp_all add: toy_decoder_fields)
  have m: "Max {?row ! i |i. i < length ?row \<and> i \<noteq> eos toy_decoder} = ln (1/2)"
  proof -
    have "{?row ! i |i. i < length ?row \<and> i \<noteq> eos toy_decoder} = {3 * ln (1/2), ln (1/2)}"
      by (auto simp: toy_decoder_fields less_Suc_eq numeral_eq_Suc nth_Cons')
    then show ?thesis using lnh by (simp only: Max_insert Max_singleton) (simp add: max_def)
  qed
  have "?row ! eos toy_decoder \<le> recog_eos_threshold toy_params * ln (1/2)"
    using lnh by (simp add: toy_decoder_fields toy_params_fields)
  with eos_rejection_rule [OF h, of toy_params 1 "toy_phase 2" "toy_hyp [2] 0" "toy_row 2"] m h
  show ?thesis by simp
qed

section \<open>The life cycle of a hypothesis\<close>

text \<open>
  Claim C6. First part, for one pass of the loop of the whole-utterance search: when the
  loop goes on, the live set has at most \<^verbatim>\<open>beam_width\<close> hypotheses and each is a live
  hypothesis of the pass before with one token appended; when the loop is left, the live
  set is the one before; a hypothesis of the completed set was there before or is a live
  hypothesis with one token appended. Second part, for the state after any number of
  passes from the initial hypothesis, outside oracle mode and with a beam width of at
  least one: both sets have at most \<^verbatim>\<open>beam_width\<close> hypotheses, a live hypothesis has no end
  symbol after the start symbol, a completed hypothesis has the end symbol after the start
  symbol at its last position only, and no hypothesis of either set extends a completed
  hypothesis.
\<close>

theorem beam_hypothesis_lifecycle:
  "(beam_step d n c p refs_id b elen t (hyps, end_hyps) = Inr ((hyps1, end_hyps1), brk) \<longrightarrow>
      (brk \<longrightarrow> hyps1 = hyps)
    \<and> (\<not> brk \<longrightarrow> length hyps1 \<le> recog_beam_width p
                 \<and> (\<forall>h\<in>set hyps1. \<exists>beam\<in>set hyps. \<exists>idx. hyp h = hyp beam @ [idx]))
    \<and> (\<forall>h\<in>set end_hyps1.
          h \<in> set end_hyps \<or> (\<exists>beam\<in>set hyps. \<exists>idx. hyp h = hyp beam @ [idx])))
 \<and> (beam_loop d n c p refs_id b elen ts ([init_hyp d n c ds0 lm0], []) = Inr (hyps2, end_hyps2)
      \<and> \<not> recog_oracle p \<and> 1 \<le> recog_beam_width p \<longrightarrow>
      length hyps2 \<le> recog_beam_width p
    \<and> length end_hyps2 \<le> recog_beam_width p
    \<and> (\<forall>h\<in>set hyps2. \<exists>toks. hyp h = eos d # toks \<and> eos d \<notin> set toks)
    \<and> (\<forall>e\<in>set end_hyps2.
          (\<exists>toks. hyp e = eos d # toks @ [eos d] \<and> eos d \<notin> set toks)
        \<and> (\<forall>h\<in>set hyps2 \<union> set end_hyps2. \<not> (\<exists>ys. ys \<noteq> [] \<and> hyp h = hyp e @ ys))))"
proof (intro conjI impI)
  assume step: "beam_step d n c p refs_id b elen t (hyps, end_hyps)
                  = Inr ((hyps1, end_hyps1), brk)"
  note f = beam_step_facts [OF step]
  show "hyps1 = hyps" if brk using f(2) that .
  show "length hyps1 \<le> recog_beam_width p" if "\<not> brk" using f(3) that .
  show "\<forall>h\<in>set hyps1. \<exists>beam\<in>set hyps. \<exists>idx. hyp h = hyp beam @ [idx]" if "\<not> brk"
    using f(4) that .
  from f(1) obtain completed where
    e1: "end_hyps1 = (if brk then take (recog_beam_width p) (end_hyps @ completed)
                        else end_hyps @ completed)" and
    cp: "\<forall>h\<in>set completed. \<exists>beam\<in>set hyps. \<exists>idx. hyp h = hyp beam @ [idx]"
    by blast
  have "set end_hyps1 \<subseteq> set end_hyps \<union> set completed"
    unfolding e1 using set_take_subset [of "recog_beam_width p" "end_hyps @ completed"]
    by (cases brk) simp_all
  with cp show "\<forall>h\<in>set end_hyps1.
          h \<in> set end_hyps \<or> (\<exists>beam\<in>set hyps. \<exists>idx. hyp h = hyp beam @ [idx])"
    by blast
next
  assume a: "beam_loop d n c p refs_id b elen ts ([init_hyp d n c ds0 lm0], [])
               = Inr (hyps2, end_hyps2)
             \<and> \<not> recog_oracle p \<and> 1 \<le> recog_beam_width p"
  have i: "\<forall>h\<in>set [init_hyp d n c ds0 lm0]. \<exists>toks. hyp h = eos d # toks \<and> eos d \<notin> set toks"
    by (simp add: init_hyp_def)
  have inv: "(\<forall>h\<in>set hyps2. \<exists>toks. hyp h = eos d # toks \<and> eos d \<notin> set toks)
       \<and> (\<forall>h\<in>set end_hyps2. \<exists>toks. hyp h = eos d # toks @ [eos d] \<and> eos d \<notin> set toks)
       \<and> length hyps2 \<le> recog_beam_width p
       \<and> length end_hyps2 \<le> recog_beam_width p"
  proof (rule beam_loop_inv)
    show "beam_loop d n c p refs_id b elen ts ([init_hyp d n c ds0 lm0], [])
               = Inr (hyps2, end_hyps2)" using a by blast
    show "\<not> recog_oracle p" using a by blast
    show "\<forall>h\<in>set [init_hyp d n c ds0 lm0]. \<exists>toks. hyp h = eos d # toks \<and> eos d \<notin> set toks"
      by (rule i)
    show "\<forall>h\<in>set []. \<exists>toks. hyp h = eos d # toks @ [eos d] \<and> eos d \<notin> set toks"
      by simp
    show "length [init_hyp d n c ds0 lm0] \<le> recog_beam_width p" using a by simp
    show "length ([] :: hypothesis list) \<le> recog_beam_width p" by simp
  qed
  then show "length hyps2 \<le> recog_beam_width p" "length end_hyps2 \<le> recog_beam_width p"
    "\<forall>h\<in>set hyps2. \<exists>toks. hyp h = eos d # toks \<and> eos d \<notin> set toks"
    by blast+
  show "\<forall>e\<in>set end_hyps2.
          (\<exists>toks. hyp e = eos d # toks @ [eos d] \<and> eos d \<notin> set toks)
        \<and> (\<forall>h\<in>set hyps2 \<union> set end_hyps2. \<not> (\<exists>ys. ys \<noteq> [] \<and> hyp h = hyp e @ ys))"
  proof (intro ballI conjI)
    fix e assume e: "e \<in> set end_hyps2"
    with inv show ef: "\<exists>toks. hyp e = eos d # toks @ [eos d] \<and> eos d \<notin> set toks" by blast
    fix h assume h: "h \<in> set hyps2 \<union> set end_hyps2"
    from ef obtain toks where t: "hyp e = eos d # toks @ [eos d]" "eos d \<notin> set toks" by blast
    from h inv obtain toks1 where
      "hyp h = eos d # toks1 \<and> eos d \<notin> set toks1
         \<or> hyp h = eos d # toks1 @ [eos d] \<and> eos d \<notin> set toks1"
      by blast
    from no_extension_of_completed [OF t this]
    show "\<not> (\<exists>ys. ys \<noteq> [] \<and> hyp h = hyp e @ ys)" .
  qed
qed

theorem beam_hypothesis_lifecycle_witness:
  "beam_step toy_decoder eos_net no_collab toy_params None 0 1 0 ([toy_hyp [2] 0], [])
     = Inr (([toy_hyp [2, 3] (2 * ln (1/2))], [toy_hyp [2, 2] (ln (1/2))]), False)
   \<and> beam_loop toy_decoder eos_net no_collab toy_params None 0 1 [0, 1]
        ([init_hyp toy_decoder eos_net no_collab (Some (zero_state toy_decoder eos_net)) None], [])
     = Inr ([toy_hyp [2, 3] (2 * ln (1/2))],
            [toy_hyp [2, 2] (ln (1/2)), toy_hyp [2, 3, 2] (3 * ln (1/2))])
   \<and> \<not> recog_oracle toy_params \<and> 1 \<le> recog_beam_width toy_params
   \<and> length [toy_hyp [2, 3] (2 * ln (1/2))] \<le> recog_beam_width toy_params
   \<and> (\<exists>beam\<in>set [toy_hyp [2] 0]. \<exists>idx.
         hyp (toy_hyp [2, 3] (2 * ln (1/2))) = hyp beam @ [idx])
   \<and> \<not> (\<exists>ys. ys \<noteq> []
            \<and> hyp (toy_hyp [2, 3] (2 * ln (1/2))) = hyp (toy_hyp [2, 2] (ln (1/2))) @ ys)
   \<and> \<not> (\<exists>ys. ys \<noteq> []
            \<and> hyp (toy_hyp [2, 3, 2] (3 * ln (1/2))) = hyp (toy_hyp [2, 2] (ln (1/2))) @ ys)"
proof -
  have s: "beam_step toy_decoder eos_net no_collab toy_params None 0 1 0 ([toy_hyp [2] 0], [])
     = Inr (([toy_hyp [2, 3] (2 * ln (1/2))], [toy_hyp [2, 2] (ln (1/2))]), False)"
    by (simp add: eos_beam_step)
  have i: "init_hyp toy_decoder eos_net no_collab (Some (zero_state toy_decoder eos_net)) None
             = toy_hyp [2] 0"
    by (simp add: init_hyp_def toy_hyp_def toy_decoder_fields eos_net_fields toy_net_fields
        no_collab_fields zero_state_def zero_dstate_def)
  have l: "beam_loop toy_decoder eos_net no_collab toy_params None 0 1 [0, 1]
        ([init_hyp toy_decoder eos_net no_collab (Some (zero_state toy_decoder eos_net)) None], [])
     = Inr ([toy_hyp [2, 3] (2 * ln (1/2))],
            [toy_hyp [2, 2] (ln (1/2)), toy_hyp [2, 3, 2] (3 * ln (1/2))])"
    unfolding i by (rule eos_beam_loop)
  have p: "\<not> recog_oracle toy_params" "1 \<le> recog_beam_width toy_params"
    by (simp_all add: toy_params_fields)
  note t = beam_hypothesis_lifecycle
    [of toy_decoder eos_net no_collab toy_params None 0 1 0 "[toy_hyp [2] 0]" "[]"
        "[toy_hyp [2, 3] (2 * ln (1/2))]" "[toy_hyp [2, 2] (ln (1/2))]" False "[0, 1]"
        "Some (zero_state toy_decoder eos_net)" None "[toy_hyp [2, 3] (2 * ln (1/2))]"
        "[toy_hyp [2, 2] (ln (1/2)), toy_hyp [2, 3, 2] (3 * ln (1/2))]"]
  from t s have c1: "length [toy_hyp [2, 3] (2 * ln (1/2))] \<le> recog_beam_width toy_params
     \<and> (\<forall>h\<in>set [toy_hyp [2, 3] (2 * ln (1/2))].
         \<exists>beam\<in>set [toy_hyp [2] 0]. \<exists>idx. hyp h = hyp beam @ [idx])"
    by blast
  from t l p have c2: "\<forall>e\<in>set [toy_hyp [2, 2] (ln (1/2)), toy_hyp [2, 3, 2] (3 * ln (1/2))].
         \<forall>h\<in>set [toy_hyp [2, 3] (2 * ln (1/2))]
               \<union> set [toy_hyp [2, 2] (ln (1/2)), toy_hyp [2, 3, 2] (3 * ln (1/2))].
           \<not> (\<exists>ys. ys \<noteq> [] \<and> hyp h = hyp e @ ys)"
    by blast
  from c1 have d1: "\<exists>beam\<in>set [toy_hyp [2] 0]. \<exists>idx.
         hyp (toy_hyp [2, 3] (2 * ln (1/2))) = hyp beam @ [idx]"
    by simp
  from c2 have d2: "\<not> (\<exists>ys. ys \<noteq> []
            \<and> hyp (toy_hyp [2, 3] (2 * ln (1/2))) = hyp (toy_hyp [2, 2] (ln (1/2))) @ ys)"
    "\<not> (\<exists>ys. ys \<noteq> []
            \<and> hyp (toy_hyp [2, 3, 2] (3 * ln (1/2))) = hyp (toy_hyp [2, 2] (ln (1/2))) @ ys)"
    by simp_all
  from s l p c1 d1 d2 show ?thesis by blast
qed

section \<open>The length penalty\<close>

text \<open>
  Claim C7 as stated fails for a negative length-penalty weight: the code applies the
  penalty only under \<^verbatim>\<open>if lp_weight > 0\<close>, so with weight \<open>-1\<close> the score \<open>0\<close> of a
  candidate stays \<open>0\<close> and is not \<open>0 + (0 + 1) * (-1)\<close>.
\<close>

theorem length_penalty_negative_counterexample:
  "\<not> (add_length_penalty neg_lp_params (toy_hyp [2] 0) [0]
        = map (\<lambda>s. s + (real (length (hyp (toy_hyp [2] 0)) - 1) + 1)
                          * recog_length_penalty neg_lp_params) [0])"
  by (simp add: add_length_penalty_def neg_lp_params_fields toy_hyp_fields)

text \<open>
  Claim C7, as the code has it. Let \<open>acc\<close> be the scores of the selected candidates after
  the language-model score. When the length-penalty weight \<open>p\<close> is positive, the penalty
  divides them by \<open>(6 + len) powr p / 6 powr p\<close> in GNMT mode and adds \<open>(len + 1) * p\<close>
  otherwise, where \<open>len\<close> is the length of the hypothesis without the start symbol; when
  \<open>p\<close> is not positive the scores are unchanged. The coverage penalty and the CTC score
  come after.
\<close>

theorem length_penalty_rule:
  assumes "candidates n c p beam r scores_attn aw = Inr cd"
  shows "\<exists>vals0 ids0 tsl cp0 acc pen.
      topk (recog_beam_width p)
        (map (\<lambda>s. (score_attn beam + s) * (1 - recog_ctc_weight p)) scores_attn)
        = Inr (vals0, ids0)
    \<and> lm_scores c p beam r ids0 = Inr tsl
    \<and> coverage_penalty p n beam aw = Inr cp0
    \<and> acc = (if lm c \<noteq> None
              then map2 (\<lambda>v s. v + s * recog_lm_weight p) vals0 tsl else vals0)
    \<and> pen = (if 0 < recog_length_penalty p then
               (if recog_gnmt_decoding p
                then map (\<lambda>s. s / ((6 + real (length (hyp beam) - 1)) powr recog_length_penalty p
                                     / 6 powr recog_length_penalty p)) acc
                else map (\<lambda>s. s + (real (length (hyp beam) - 1) + 1) * recog_length_penalty p) acc)
              else acc)
    \<and> (case ctc_prefix_score c of
          None \<Rightarrow>
            total_scores_topk cd
              = map (\<lambda>v. if 0 < recog_coverage_penalty p
                         then v + cp0 * recog_coverage_penalty p else v) pen
        | Some f \<Rightarrow>
            (\<exists>joint.
               topk (recog_beam_width p)
                 (map2 (\<lambda>v s. v + s * recog_ctc_weight p)
                    (map (\<lambda>v. if 0 < recog_coverage_penalty p
                               then v + cp0 * recog_coverage_penalty p else v) pen)
                    (fst (f (hyp beam) ids0 (ctc_state beam))))
                 = Inr (total_scores_topk cd, joint)))"
proof -
  from candidates_Inr [OF assms] obtain vals0 ids0 tsl cp0 pre where
    facts: "topk (recog_beam_width p)
        (map (\<lambda>s. (score_attn beam + s) * (1 - recog_ctc_weight p)) scores_attn)
        = Inr (vals0, ids0)"
      "lm_scores c p beam r ids0 = Inr tsl"
      "coverage_penalty p n beam aw = Inr cp0"
      "pre = map (\<lambda>v. if 0 < recog_coverage_penalty p
                        then v + cp0 * recog_coverage_penalty p else v)
               (add_length_penalty p beam
                  (if lm c \<noteq> None
                   then map2 (\<lambda>v s. v + s * recog_lm_weight p) vals0 tsl else vals0))"
      "(case ctc_prefix_score c of
          None \<Rightarrow> topk_ids cd = ids0 \<and> total_scores_topk cd = pre
        | Some f \<Rightarrow>
            (\<exists>joint.
               topk (recog_beam_width p)
                 (map2 (\<lambda>v s. v + s * recog_ctc_weight p) pre
                    (fst (f (hyp beam) ids0 (ctc_state beam))))
                 = Inr (total_scores_topk cd, joint)
             \<and> topk_ids cd = map ((!) ids0) joint))"
    by blast
  define acc where "acc = (if lm c \<noteq> None
              then map2 (\<lambda>v s. v + s * recog_lm_weight p) vals0 tsl else vals0)"
  define pen where "pen = (if 0 < recog_length_penalty p then
               (if recog_gnmt_decoding p
                then map (\<lambda>s. s / ((6 + real (length (hyp beam) - 1)) powr recog_length_penalty p
                                     / 6 powr recog_length_penalty p)) acc
                else map (\<lambda>s. s + (real (length (hyp beam) - 1) + 1) * recog_length_penalty p) acc)
              else acc)"
  have "add_length_penalty p beam acc = pen"
    by (simp add: add_length_penalty_def pen_def Let_def)
  with facts(4) have pre: "pre = map (\<lambda>v. if 0 < recog_coverage_penalty p
                        then v + cp0 * recog_coverage_penalty p else v) pen"
    by (simp add: acc_def)
  have "(case ctc_prefix_score c of
          None \<Rightarrow>
            total_scores_topk cd
              = map (\<lambda>v. if 0 < recog_coverage_penalty p
                         then v + cp0 * recog_coverage_penalty p else v) pen
        | Some f \<Rightarrow>
            (\<exists>joint.
               topk (recog_beam_width p)
                 (map2 (\<lambda>v s. v + s * recog_ctc_weight p)
                    (map (\<lambda>v. if 0 < recog_coverage_penalty p
                               then v + cp0 * recog_coverage_penalty p else v) pen)
                    (fst (f (hyp beam) ids0 (ctc_state beam))))
                 = Inr (total_scores_topk cd, joint)))"
    using facts(5) unfolding pre by (auto split: option.splits)
  with facts(1-3) acc_def pen_def show ?thesis by blast
qed

theorem length_penalty_rule_witness:
  "candidates toy_net no_collab lp_params (toy_hyp [2] 0) (toy_row 2)
      [3 * ln (1/2), 3 * ln (1/2), 2 * ln (1/2), ln (1 / 2)] [[[1]]]
    = Inr \<lparr>topk_ids = [3, 2], total_scores_topk = [ln (1/2) + 1, 2 * ln (1/2) + 1],
           total_scores_attn = [3 * ln (1/2), 3 * ln (1/2), 2 * ln (1/2), ln (1/2)],
           total_scores_lm = [0, 0], total_scores_ctc = [0, 0], cp = 0, ctc_states = [],
           joint_ids_topk = None\<rparr>
   \<and> (\<exists>vals0 ids0 tsl cp0 acc pen.
      topk (recog_beam_width lp_params)
        (map (\<lambda>s. (score_attn (toy_hyp [2] 0) + s) * (1 - recog_ctc_weight lp_params)) [3 * ln (1/2), 3 * ln (1/2), 2 * ln (1/2), ln (1 / 2)])
        = Inr (vals0, ids0)
    \<and> lm_scores no_collab lp_params (toy_hyp [2] 0) (toy_row 2) ids0 = Inr tsl
    \<and> coverage_penalty lp_params toy_net (toy_hyp [2] 0) [[[1]]] = Inr cp0
    \<and> acc = (if lm no_collab \<noteq> None
              then map2 (\<lambda>v s. v + s * recog_lm_weight lp_params) vals0 tsl else vals0)
    \<and> pen = (if 0 < recog_length_penalty lp_params then
               (if recog_gnmt_decoding lp_params
                then map (\<lambda>s. s / ((6 + real (length (hyp (toy_hyp [2] 0)) - 1)) powr recog_length_penalty lp_params
                                     / 6 powr recog_length_penalty lp_params)) acc
                else map (\<lambda>s. s + (real (length (hyp (toy_hyp [2] 0)) - 1) + 1) * recog_length_penalty lp_params) acc)
              else acc)
    \<and> (case ctc_prefix_score no_collab of
          None \<Rightarrow>
            total_scores_topk \<lparr>topk_ids = [3, 2], total_scores_topk = [ln (1/2) + 1, 2 * ln (1/2) + 1],
           total_scores_attn = [3 * ln (1/2), 3 * ln (1/2), 2 * ln (1/2), ln (1/2)],
           total_scores_lm = [0, 0], total_scores_ctc = [0, 0], cp = 0, ctc_states = [],
           joint_ids_topk = None\<rparr>
              = map (\<lambda>v. if 0 < recog_coverage_penalty lp_params
                         then v + cp0 * recog_coverage_penalty lp_params else v) pen
        | Some f \<Rightarrow>
            (\<exists>joint.
               topk (recog_beam_width lp_params)
                 (map2 (\<lambda>v s. v + s * recog_ctc_weight lp_params)
                    (map (\<lambda>v. if 0 < recog_coverage_penalty lp_params
                               then v + cp0 * recog_coverage_penalty lp_params else v) pen)
                    (fst (f (hyp (toy_hyp [2] 0)) ids0 (ctc_state (toy_hyp [2] 0)))))
                 = Inr (total_scores_topk \<lparr>topk_ids = [3, 2], total_scores_topk = [ln (1/2) + 1, 2 * ln (1/2) + 1],
           total_scores_attn = [3 * ln (1/2), 3 * ln (1/2), 2 * ln (1/2), ln (1/2)],
           total_scores_lm = [0, 0], total_scores_ctc = [0, 0], cp = 0, ctc_states = [],
           joint_ids_topk = None\<rparr>, joint))))"
proof (rule conjI)
  note e = lp_candidates [of "toy_row 2" "[[[1]]]"]
  show "candidates toy_net no_collab lp_params (toy_hyp [2] 0) (toy_row 2)
      [3 * ln (1/2), 3 * ln (1/2), 2 * ln (1/2), ln (1 / 2)] [[[1]]]
    = Inr \<lparr>topk_ids = [3, 2], total_scores_topk = [ln (1/2) + 1, 2 * ln (1/2) + 1],
           total_scores_attn = [3 * ln (1/2), 3 * ln (1/2), 2 * ln (1/2), ln (1/2)],
           total_scores_lm = [0, 0], total_scores_ctc = [0, 0], cp = 0, ctc_states = [],
           joint_ids_topk = None\<rparr>"
    by (rule e)
  show "\<exists>vals0 ids0 tsl cp0 acc pen.
      topk (recog_beam_width lp_params)
        (map (\<lambda>s. (score_attn (toy_hyp [2] 0) + s) * (1 - recog_ctc_weight lp_params)) [3 * ln (1/2), 3 * ln (1/2), 2 * ln (1/2), ln (1 / 2)])
        = Inr (vals0, ids0)
    \<and> lm_scores no_collab lp_params (toy_hyp [2] 0) (toy_row 2) ids0 = Inr tsl
    \<and> coverage_penalty lp_params toy_net (toy_hyp [2] 0) [[[1]]] = Inr cp0
    \<and> acc = (if lm no_collab \<noteq> None
              then map2 (\<lambda>v s. v + s * recog_lm_weight lp_params) vals0 tsl else vals0)
    \<and> pen = (if 0 < recog_length_penalty lp_params then
               (if recog_gnmt_decoding lp_params
                then map (\<lambda>s. s / ((6 + real (length (hyp (toy_hyp [2] 0)) - 1)) powr recog_length_penalty lp_params
                                     / 6 powr recog_length_penalty lp_params)) acc
                else map (\<lambda>s. s + (real (length (hyp (toy_hyp [2] 0)) - 1) + 1) * recog_length_penalty lp_params) acc)
              else acc)
    \<and> (case ctc_prefix_score no_collab of
          None \<Rightarrow>
            total_scores_topk \<lparr>topk_ids = [3, 2], total_scores_topk = [ln (1/2) + 1, 2 * ln (1/2) + 1],
           total_scores_attn = [3 * ln (1/2), 3 * ln (1/2), 2 * ln (1/2), ln (1/2)],
           total_scores_lm = [0, 0], total_scores_ctc = [0, 0], cp = 0, ctc_states = [],
           joint_ids_topk = None\<rparr>
              = map (\<lambda>v. if 0 < recog_coverage_penalty lp_params
                         then v + cp0 * recog_coverage_penalty lp_params else v) pen
        | Some f \<Rightarrow>
            (\<exists>joint.
               topk (recog_beam_width lp_params)
                 (map2 (\<lambda>v s. v + s * recog_ctc_weight lp_params)
                    (map (\<lambda>v. if 0 < recog_coverage_penalty lp_params
                               then v + cp0 * recog_coverage_penalty lp_params else v) pen)
                    (fst (f (hyp (toy_hyp [2] 0)) ids0 (ctc_state (toy_hyp [2] 0)))))
                 = Inr (total_scores_topk \<lparr>topk_ids = [3, 2], total_scores_topk = [ln (1/2) + 1, 2 * ln (1/2) + 1],
           total_scores_attn = [3 * ln (1/2), 3 * ln (1/2), 2 * ln (1/2), ln (1/2)],
           total_scores_lm = [0, 0], total_scores_ctc = [0, 0], cp = 0, ctc_states = [],
           joint_ids_topk = None\<rparr>, joint)))"
    by (rule length_penalty_rule [OF e])
qed


section \<open>The ensemble\<close>

text \<open>
  Claim C8 says that with an ensemble the attention scores of a step are the logarithm of
  the sum of the models' probabilities, divided by the number of models. Lines 1007 and
  1011 compute that, but no call with an ensemble reaches them: line 996 looks up
  \<^verbatim>\<open>beam['dstates'][i_e]\<close>, and \<^verbatim>\<open>beam['dstates']\<close> is the dictionary
  \<^verbatim>\<open>{'dstate': (hxs, cxs)}\<close>, which has no integer key (line 994, for \<^verbatim>\<open>hxs_e\<close>, reads
  \<^verbatim>\<open>beam['ensmbl_dstate'][i_e]\<close>). On the first step of \<open>toy_decoder\<close> with an ensemble
  of one further decoder the scores of the step are a \<^verbatim>\<open>KeyError\<close>.
  (\<open>score_phase_ensemble_fails\<close>: with a non-empty ensemble the step fails on every
  input.)
\<close>

theorem ensemble_key_error:
  "score_phase toy_decoder toy_net ens_collab toy_params None 0 0
     [init_hyp toy_decoder toy_net ens_collab (Some (zero_state toy_decoder toy_net)) None]
    = Inl KeyError"
proof -
  let ?h = "(toy_hyp [2] 0)\<lparr>ensmbl_dstate := [[(KStr ''dstate'', ([[0]], Some [[0]]))]],
                         ensmbl_cv := [[0]], ensmbl_aws := [[None]]\<rparr>"
  have f: "hyp ?h = [2]" "dstates ?h = Some [(KStr ''dstate'', ([[0]], Some [[0]]))]"
    "cv ?h = [0]" "lmstate ?h = None" "ensmbl_cv ?h = [[0]]"
    "ensmbl_dstate ?h = [[(KStr ''dstate'', ([[0]], Some [[0]]))]]"
    by (simp_all add: toy_hyp_fields)
  have row: "main_row toy_decoder toy_net ens_collab 0 True (?h, 2, ([[0]], Some [[0]]), None)
               = Inr (toy_row 2)"
    by (simp add: main_row_def lm_predict_def ens_collab_fields f toy_net_fields
        toy_decode_step toy_row_def)
  have mp: "main_phase toy_decoder toy_net ens_collab toy_params None 0 0 [?h]
              = Inr [toy_row 2]"
    by (simp add: main_phase_def prev_idx_def last_e_def f toy_decoder_fields
        toy_params_fields subscript_def dict_get_def batch_lmstate_def ens_collab_fields row)
  have es: "ensemble_states toy_decoder 0 0 [?h] = Inl KeyError"
    by (simp add: ensemble_states_def getitem_def f dict_get_def subscript_def
        toy_decoder_fields)
  have em: "ensemble_model toy_decoder 0 [?h] [toy_row 2] (0, toy_decoder, eos_net)
              = Inl KeyError"
    by (simp add: ensemble_model_def es)
  have z: "zip [0..<length (ensmbl_decs ens_collab)] (ensmbl_decs ens_collab)
             = [(0, toy_decoder, eos_net)]"
    by (simp add: ens_collab_fields)
  have "score_phase toy_decoder toy_net ens_collab toy_params None 0 0 [?h] = Inl KeyError"
    unfolding score_phase_def Let_def mp z
    by (simp add: em ens_collab_fields)
  then show ?thesis by (simp only: ens_init)
qed

end
